theory Spec2Isabelle
  imports Complex_Main "HOL-Library.Word"
begin

section \<open>JavaScript values\<close>

text \<open>
  The five blocks of the SSH app are asynchronous TypeScript handlers. Each one is embedded
  as a function from a \<open>world\<close> (everything outside the repository's code: the remote
  hosts, the local file system, the clock, the platform) to a completion and the world
  afterwards. A thrown exception is the completion \<open>Inl (Error msg)\<close>.

  A value that may be \<open>undefined\<close> is an \<open>option\<close>. Strings whose bytes the code never
  looks at (hosts, commands, paths, messages) are HOL strings; the file content handled
  by Upload File and Download File is a list of UTF-16 code units, because its conversion
  to and from bytes is what those blocks do.
\<close>

type_synonym byte = "8 word"
type_synonym utf16 = "16 word list"

datatype js_error = Error (message: string)

text \<open>\<open>!v\<close> for a string that may be undefined: undefined and the empty string are falsy.\<close>

definition truthy :: "string option \<Rightarrow> bool" where
  "truthy v = (case v of None \<Rightarrow> False | Some s \<Rightarrow> s \<noteq> [])"

text \<open>\<open>a || b\<close>.\<close>

definition js_or :: "string option \<Rightarrow> string option \<Rightarrow> string option" where
  "js_or a b = (if truthy a then a else b)"

text \<open>\<open>s.substr(from, len)\<close> and \<open>s.substring(from, to)\<close> for \<open>from \<le> to\<close>.\<close>

definition substr :: "nat \<Rightarrow> nat \<Rightarrow> string \<Rightarrow> string" where
  "substr from len s = take len (drop from s)"

definition substring :: "nat \<Rightarrow> nat \<Rightarrow> string \<Rightarrow> string" where
  "substring from to s = take (to - from) (drop from s)"

text \<open>The decimal rendering of an integer, as a template literal prints a number.\<close>

definition digit_char :: "nat \<Rightarrow> char" where
  "digit_char d = ''0123456789'' ! d"

function show_nat :: "nat \<Rightarrow> string" where
  "show_nat n = (if n < 10 then [digit_char n] else show_nat (n div 10) @ [digit_char (n mod 10)])"
  by pat_completeness auto
termination
  by (relation "measure id") auto

declare show_nat.simps [simp del]

definition show_int :: "int \<Rightarrow> string" where
  "show_int i = (if i < 0 then CHR ''-'' # show_nat (nat (- i)) else show_nat (nat i))"

text \<open>The double quote, the single quote and the line feed of the command templates.\<close>

definition dq :: string where
  "dq = [CHR 0x22]"

definition sq :: string where
  "sq = [CHR 0x27]"

definition nl :: string where
  "nl = [CHR 0x0A]"

text \<open>\<open>v || d\<close> where \<open>d\<close> is a string.\<close>

definition or_default :: "string option \<Rightarrow> string \<Rightarrow> string" where
  "or_default v d = (case v of None \<Rightarrow> d | Some s \<Rightarrow> if s = [] then d else s)"

text \<open>\<open>path.join(dir, name)\<close> for a directory without a trailing separator.\<close>

definition path_join :: "string \<Rightarrow> string \<Rightarrow> string" where
  "path_join dir name = dir @ ''/'' @ name"

section \<open>Buffers: base64 and UTF-8\<close>

text \<open>The byte and the code unit with a given value.\<close>

definition byte_of :: "nat \<Rightarrow> byte" where
  "byte_of n = of_nat n"

definition unit_of :: "nat \<Rightarrow> 16 word" where
  "unit_of n = of_nat n"

text \<open>
  \<open>buffer.toString("base64")\<close>: three bytes become four characters of the alphabet
  \<open>A-Z a-z 0-9 + /\<close>, a final group of one or two bytes is padded with \<open>=\<close> (61).
\<close>

definition b64_char :: "nat \<Rightarrow> 16 word" where
  "b64_char n =
     unit_of (if n < 26 then 65 + n else if n < 52 then 71 + n else if n < 62 then n - 4
             else if n = 62 then 43 else 47)"

fun Buffer_toString_base64 :: "byte list \<Rightarrow> utf16" where
  "Buffer_toString_base64 [] = []"
| "Buffer_toString_base64 [a] =
     [b64_char (unat a div 4), b64_char ((unat a mod 4) * 16), 61, 61]"
| "Buffer_toString_base64 [a, b] =
     [b64_char (unat a div 4), b64_char ((unat a mod 4) * 16 + unat b div 16),
      b64_char ((unat b mod 16) * 4), 61]"
| "Buffer_toString_base64 (a # b # c # rest) =
     [b64_char (unat a div 4), b64_char ((unat a mod 4) * 16 + unat b div 16),
      b64_char ((unat b mod 16) * 4 + unat c div 64), b64_char (unat c mod 64)]
     @ Buffer_toString_base64 rest"

text \<open>
  \<open>Buffer.from(s, "base64")\<close>: the decoder reads the low byte of each code unit of the
  string. Decoding stops at the first \<open>=\<close>, characters outside the alphabet (the URL-safe
  \<open>-\<close> and \<open>_\<close> belong to it) are skipped, and a final single character is dropped.
\<close>

definition low_byte :: "16 word \<Rightarrow> nat" where
  "low_byte u = unat u mod 256"

definition b64_val :: "16 word \<Rightarrow> nat option" where
  "b64_val u =
     (let c = low_byte u in
      if 65 \<le> c \<and> c \<le> 90 then Some (c - 65)
      else if 97 \<le> c \<and> c \<le> 122 then Some (c - 71)
      else if 48 \<le> c \<and> c \<le> 57 then Some (c + 4)
      else if c = 43 \<or> c = 45 then Some 62
      else if c = 47 \<or> c = 95 then Some 63
      else None)"

fun b64_bytes :: "nat list \<Rightarrow> byte list" where
  "b64_bytes (s1 # s2 # s3 # s4 # rest) =
     [byte_of (s1 * 4 + s2 div 16), byte_of ((s2 mod 16) * 16 + s3 div 4),
      byte_of ((s3 mod 4) * 64 + s4)] @ b64_bytes rest"
| "b64_bytes [s1, s2, s3] =
     [byte_of (s1 * 4 + s2 div 16), byte_of ((s2 mod 16) * 16 + s3 div 4)]"
| "b64_bytes [s1, s2] = [byte_of (s1 * 4 + s2 div 16)]"
| "b64_bytes [s1] = []"
| "b64_bytes [] = []"

definition Buffer_from_base64 :: "utf16 \<Rightarrow> byte list" where
  "Buffer_from_base64 s =
     b64_bytes (List.map_filter b64_val (takeWhile (\<lambda>u. low_byte u \<noteq> 61) s))"

text \<open>
  Writing a string as UTF-8 (\<open>fs.writeFile(path, string)\<close>): the code units are read as
  code points, a surrogate pair as one and a surrogate without its partner as U+FFFD, and
  each code point becomes one to four bytes.
\<close>

definition is_high_surrogate :: "16 word \<Rightarrow> bool" where
  "is_high_surrogate u = (0xD800 \<le> unat u \<and> unat u \<le> 0xDBFF)"

definition is_low_surrogate :: "16 word \<Rightarrow> bool" where
  "is_low_surrogate u = (0xDC00 \<le> unat u \<and> unat u \<le> 0xDFFF)"

fun code_points :: "utf16 \<Rightarrow> nat list" where
  "code_points [] = []"
| "code_points [u] = [if is_high_surrogate u \<or> is_low_surrogate u then 0xFFFD else unat u]"
| "code_points (u # v # rest) =
     (if is_high_surrogate u \<and> is_low_surrogate v
      then (0x10000 + (unat u - 0xD800) * 0x400 + (unat v - 0xDC00)) # code_points rest
      else if is_high_surrogate u \<or> is_low_surrogate u then 0xFFFD # code_points (v # rest)
      else unat u # code_points (v # rest))"

definition utf8_bytes :: "nat \<Rightarrow> byte list" where
  "utf8_bytes cp =
     (if cp < 0x80 then [byte_of cp]
      else if cp < 0x800 then [byte_of (0xC0 + cp div 64), byte_of (0x80 + cp mod 64)]
      else if cp < 0x10000
      then [byte_of (0xE0 + cp div 4096), byte_of (0x80 + (cp div 64) mod 64),
            byte_of (0x80 + cp mod 64)]
      else [byte_of (0xF0 + cp div 262144), byte_of (0x80 + (cp div 4096) mod 64),
            byte_of (0x80 + (cp div 64) mod 64), byte_of (0x80 + cp mod 64)])"

definition utf8_encode :: "utf16 \<Rightarrow> byte list" where
  "utf8_encode s = concat (map utf8_bytes (code_points s))"

text \<open>
  \<open>buffer.toString("utf8")\<close>: the decoder keeps the code point read so far, the number
  of continuation bytes still needed and the range allowed for the next one; a byte that
  cannot continue or start a sequence gives U+FFFD. A code point above U+FFFF becomes a
  surrogate pair.
\<close>

type_synonym utf8_state = "nat \<times> nat \<times> nat \<times> nat"

definition utf8_idle :: utf8_state where
  "utf8_idle = (0, 0, 0x80, 0xBF)"

definition utf8_lead :: "nat \<Rightarrow> nat list \<times> utf8_state" where
  "utf8_lead b =
     (if b < 0x80 then ([b], utf8_idle)
      else if 0xC2 \<le> b \<and> b \<le> 0xDF then ([], (b - 0xC0, 1, 0x80, 0xBF))
      else if 0xE0 \<le> b \<and> b \<le> 0xEF
      then ([], (b - 0xE0, 2, if b = 0xE0 then 0xA0 else 0x80, if b = 0xED then 0x9F else 0xBF))
      else if 0xF0 \<le> b \<and> b \<le> 0xF4
      then ([], (b - 0xF0, 3, if b = 0xF0 then 0x90 else 0x80, if b = 0xF4 then 0x8F else 0xBF))
      else ([0xFFFD], utf8_idle))"

fun utf8_scan :: "utf8_state \<Rightarrow> nat list \<Rightarrow> nat list" where
  "utf8_scan (cp, needed, lo, hi) [] = (if needed = 0 then [] else [0xFFFD])"
| "utf8_scan (cp, needed, lo, hi) (b # bs) =
     (if needed = 0 then (case utf8_lead b of (out, st) \<Rightarrow> out @ utf8_scan st bs)
      else if b < lo \<or> hi < b
      then 0xFFFD # (case utf8_lead b of (out, st) \<Rightarrow> out @ utf8_scan st bs)
      else if needed = 1 then (cp * 64 + (b - 0x80)) # utf8_scan utf8_idle bs
      else utf8_scan (cp * 64 + (b - 0x80), needed - 1, 0x80, 0xBF) bs)"

definition utf16_units :: "nat \<Rightarrow> utf16" where
  "utf16_units cp =
     (if cp < 0x10000 then [unit_of cp]
      else [unit_of (0xD800 + (cp - 0x10000) div 0x400),
            unit_of (0xDC00 + (cp - 0x10000) mod 0x400)])"

definition Buffer_toString_utf8 :: "byte list \<Rightarrow> utf16" where
  "Buffer_toString_utf8 bs = concat (map utf16_units (utf8_scan utf8_idle (map unat bs)))"


text \<open>The code units of an ASCII string.\<close>

definition ascii :: "string \<Rightarrow> utf16" where
  "ascii s = map (\<lambda>c. unit_of (of_char c)) s"

section \<open>Configuration and requests\<close>

text \<open>The app configuration of \<open>defineApp\<close>: \<open>input.app.config\<close>.\<close>

record app_config =
  privateKey :: "string option"
  defaultUsername :: "string option"
  defaultPort :: "int option"
  knownHosts :: "(string \<rightharpoonup> string) option"

text \<open>The fields every block's configuration has, and the five configurations.\<close>

record connection_input =
  host :: string
  port :: int
  username :: "string option"

record executeCommand_input = connection_input +
  command :: string
  workingDirectory :: "string option"

record executeScript_input = connection_input +
  script :: string
  interpreter :: "string option"
  scriptWorkingDirectory :: "string option"

record uploadFile_input = connection_input +
  content :: utf16
  destinationPath :: string
  encoding :: "string option"
  permissions :: "string option"

record downloadFile_input = connection_input +
  sourcePath :: string
  downloadEncoding :: "string option"

section \<open>The world\<close>

text \<open>
  The options object given to \<open>NodeSSH.connect\<close>. \<open>connect_hostVerifier\<close> is the option
  of the SSH library through which a caller has the server's host key checked; a
  connection made without it accepts every host key.
\<close>

record connect_config =
  connect_host :: string
  connect_username :: "string option"
  connect_port :: int
  connect_privateKey :: "string option"
  connect_hostVerifier :: "(string \<Rightarrow> bool) option"

text \<open>What \<open>execCommand\<close> resolves to; \<open>code\<close> is null when a signal ended the command.\<close>

record exec_result =
  stdout :: string
  stderr :: string
  code :: "int option"

text \<open>The payloads given to \<open>events.emit\<close>.\<close>

datatype event =
    CommandOutput (out_stdout: string) (out_stderr: string) (out_exitCode: "int option")
      (out_duration: int)
  | UploadOutput (out_path: string) (out_size: nat)
  | DownloadOutput (out_content: utf16) (out_sourcePath: string) (out_fileSize: nat)
      (out_permissions: "string option") (out_modifiedTime: string)

text \<open>The calls that leave the handler: network, file system and platform.\<close>

datatype call =
    Connect connect_config
  | ExecCommand string "string option"
  | PutFile string string
  | GetFile string string
  | WriteFile string "byte list"
  | ReadFile string
  | Stat string
  | Unlink string
  | Emit event
  | Dispose

datatype session_state = NoSession | Fresh | Connected string int | Disposed

text \<open>
  The state (clock, trace of calls, the one session of the running operation, remote files
  by host, port and path, local files, emitted events, console warnings) and the
  environment, which the handlers never change: whether a call throws (\<open>fault\<close>), how
  many milliseconds it takes (\<open>latency\<close>), what a remote command answers (\<open>exec_reply\<close>)
  and what it does to the files of the host it runs on (\<open>exec_effect\<close>: the command line
  goes to the remote shell as it is, so what it does is the shell's business), the message
  with which the client rejects a call made without a connection (\<open>unconnected\<close>) and
  the one with which a call on a file that is not there is rejected (\<open>missing\<close>),
  \<open>os.tmpdir()\<close> and \<open>Math.random().toString(36)\<close>.
\<close>

record world =
  clock :: int
  trace :: "call list"
  session :: session_state
  remote_files :: "string \<times> int \<Rightarrow> string \<rightharpoonup> byte list"
  local_files :: "string \<rightharpoonup> byte list"
  emitted :: "event list"
  warnings :: "string list"
  fault :: "call \<Rightarrow> string option"
  latency :: "call \<Rightarrow> nat"
  exec_reply :: "string \<Rightarrow> string option \<Rightarrow> exec_result"
  exec_effect :: "string \<Rightarrow> string option \<Rightarrow> (string \<rightharpoonup> byte list) \<Rightarrow> (string \<rightharpoonup> byte list)"
  unconnected :: "call \<Rightarrow> string"
  missing :: "call \<Rightarrow> string"
  os_tmpdir :: string
  math_random :: string

type_synonym 'a io = "world \<Rightarrow> (js_error + 'a) \<times> world"

definition ret :: "'a \<Rightarrow> 'a io" where
  "ret x w = (Inr x, w)"

definition throw :: "js_error \<Rightarrow> 'a io" where
  "throw e w = (Inl e, w)"

definition bindE :: "'a io \<Rightarrow> ('a \<Rightarrow> 'b io) \<Rightarrow> 'b io" where
  "bindE m f w = (case m w of (Inl e, w1) \<Rightarrow> (Inl e, w1) | (Inr x, w1) \<Rightarrow> f x w1)"

text \<open>\<open>try { m } catch (e) { h e }\<close> and \<open>try { m } finally { fin }\<close>: a \<open>finally\<close> block
  that throws replaces the completion of the \<open>try\<close> block.\<close>

definition try_catch :: "'a io \<Rightarrow> (js_error \<Rightarrow> 'a io) \<Rightarrow> 'a io" where
  "try_catch m h w = (case m w of (Inl e, w1) \<Rightarrow> h e w1 | (Inr x, w1) \<Rightarrow> (Inr x, w1))"

definition try_finally :: "'a io \<Rightarrow> unit io \<Rightarrow> 'a io" where
  "try_finally m fin w =
     (case m w of (r, w1) \<Rightarrow>
        (case fin w1 of (Inl e, w2) \<Rightarrow> (Inl e, w2) | (Inr _, w2) \<Rightarrow> (r, w2)))"

text \<open>A call is logged, takes its time, and throws when the environment says so.\<close>

definition tick :: "call \<Rightarrow> world \<Rightarrow> world" where
  "tick c w = w\<lparr>trace := trace w @ [c], clock := clock w + int (latency w c)\<rparr>"

definition perform :: "call \<Rightarrow> world \<Rightarrow> string option \<times> world" where
  "perform c w = (fault w c, tick c w)"

definition date_now :: "int io" where
  "date_now w = (Inr (clock w), w)"

text \<open>\<open>console.warn(label, e)\<close> is recorded as the label, a space and the message of \<open>e\<close>.\<close>

definition console_warn :: "string \<Rightarrow> unit io" where
  "console_warn msg w = (Inr (), w\<lparr>warnings := warnings w @ [msg]\<rparr>)"

definition events_emit :: "event \<Rightarrow> unit io" where
  "events_emit ev w =
     (case perform (Emit ev) w of
        (Some m, w1) \<Rightarrow> (Inl (Error m), w1)
      | (None, w1) \<Rightarrow> (Inr (), w1\<lparr>emitted := emitted w1 @ [ev]\<rparr>))"

subsection \<open>The SSH client\<close>

definition new_NodeSSH :: "unit io" where
  "new_NodeSSH w = (Inr (), w\<lparr>session := Fresh\<rparr>)"

definition ssh_connect :: "connect_config \<Rightarrow> unit io" where
  "ssh_connect cfg w =
     (case perform (Connect cfg) w of
        (Some m, w1) \<Rightarrow> (Inl (Error m), w1)
      | (None, w1) \<Rightarrow>
          (Inr (), w1\<lparr>session := Connected (connect_host cfg) (connect_port cfg)\<rparr>))"

text \<open>
  Without a connection \<open>execCommand\<close>, \<open>putFile\<close> and \<open>getFile\<close> reject at once, with
  the message of the client. With one, a command that does not throw answers, and the files
  of the host are what the command has made of them.
\<close>

definition ssh_execCommand :: "string \<Rightarrow> string option \<Rightarrow> exec_result io" where
  "ssh_execCommand cmd cwd w =
     (case session w of
        Connected h p \<Rightarrow>
          (case perform (ExecCommand cmd cwd) w of
             (Some m, w1) \<Rightarrow> (Inl (Error m), w1)
           | (None, w1) \<Rightarrow>
               (Inr (exec_reply w1 cmd cwd),
                w1\<lparr>remote_files :=
                     (remote_files w1)((h, p) := exec_effect w1 cmd cwd (remote_files w1 (h, p)))\<rparr>))
      | _ \<Rightarrow> (Inl (Error (unconnected w (ExecCommand cmd cwd))), w))"

definition ssh_dispose :: "unit io" where
  "ssh_dispose w = (Inr (), w\<lparr>trace := trace w @ [Dispose], session := Disposed\<rparr>)"

subsection \<open>Files\<close>

text \<open>
  \<open>fs.writeFile\<close> takes a Buffer or a string, and writes a string as UTF-8. Reading,
  \<open>stat\<close> and \<open>unlink\<close> of a file that is not there reject. \<open>putFile\<close> copies a local
  file to the connected host and \<open>getFile\<close> copies a remote file into a local one.
\<close>

datatype file_data = Buffer "byte list" | Text utf16

definition file_bytes :: "file_data \<Rightarrow> byte list" where
  "file_bytes d = (case d of Buffer b \<Rightarrow> b | Text s \<Rightarrow> utf8_encode s)"

definition fs_writeFile :: "string \<Rightarrow> file_data \<Rightarrow> unit io" where
  "fs_writeFile p d w =
     (let bytes = file_bytes d in
      case perform (WriteFile p bytes) w of
        (Some m, w1) \<Rightarrow> (Inl (Error m), w1)
      | (None, w1) \<Rightarrow> (Inr (), w1\<lparr>local_files := (local_files w1)(p \<mapsto> bytes)\<rparr>))"

definition fs_readFile :: "string \<Rightarrow> (byte list) io" where
  "fs_readFile p w =
     (case perform (ReadFile p) w of
        (Some m, w1) \<Rightarrow> (Inl (Error m), w1)
      | (None, w1) \<Rightarrow>
          (case local_files w1 p of
             None \<Rightarrow> (Inl (Error (missing w1 (ReadFile p))), w1)
           | Some b \<Rightarrow> (Inr b, w1)))"

definition fs_stat :: "string \<Rightarrow> nat io" where
  "fs_stat p w =
     (case perform (Stat p) w of
        (Some m, w1) \<Rightarrow> (Inl (Error m), w1)
      | (None, w1) \<Rightarrow>
          (case local_files w1 p of
             None \<Rightarrow> (Inl (Error (missing w1 (Stat p))), w1)
           | Some b \<Rightarrow> (Inr (length b), w1)))"

definition fs_unlink :: "string \<Rightarrow> unit io" where
  "fs_unlink p w =
     (case perform (Unlink p) w of
        (Some m, w1) \<Rightarrow> (Inl (Error m), w1)
      | (None, w1) \<Rightarrow>
          (case local_files w1 p of
             None \<Rightarrow> (Inl (Error (missing w1 (Unlink p))), w1)
           | Some b \<Rightarrow> (Inr (), w1\<lparr>local_files := (local_files w1)(p := None)\<rparr>)))"

definition ssh_putFile :: "string \<Rightarrow> string \<Rightarrow> unit io" where
  "ssh_putFile localFile remoteFile w =
     (case session w of
        Connected h p \<Rightarrow>
          (case perform (PutFile localFile remoteFile) w of
             (Some m, w1) \<Rightarrow> (Inl (Error m), w1)
           | (None, w1) \<Rightarrow>
               (case local_files w1 localFile of
                  None \<Rightarrow> (Inl (Error (missing w1 (PutFile localFile remoteFile))), w1)
                | Some b \<Rightarrow>
                    (Inr (), w1\<lparr>remote_files :=
                       (remote_files w1)((h, p) := (remote_files w1 (h, p))(remoteFile \<mapsto> b))\<rparr>)))
      | _ \<Rightarrow> (Inl (Error (unconnected w (PutFile localFile remoteFile))), w))"

definition ssh_getFile :: "string \<Rightarrow> string \<Rightarrow> unit io" where
  "ssh_getFile localFile remoteFile w =
     (case session w of
        Connected h p \<Rightarrow>
          (case perform (GetFile localFile remoteFile) w of
             (Some m, w1) \<Rightarrow> (Inl (Error m), w1)
           | (None, w1) \<Rightarrow>
               (case remote_files w1 (h, p) remoteFile of
                  None \<Rightarrow> (Inl (Error (missing w1 (GetFile localFile remoteFile))), w1)
                | Some b \<Rightarrow> (Inr (), w1\<lparr>local_files := (local_files w1)(localFile \<mapsto> b)\<rparr>)))
      | _ \<Rightarrow> (Inl (Error (unconnected w (GetFile localFile remoteFile))), w))"

definition math_random_toString36 :: "string io" where
  "math_random_toString36 w = (Inr (math_random w), w)"

section \<open>Execute Command\<close>

text \<open>
  \<open>onEvent\<close> of \<open>src/blocks/executeCommand.ts\<close>: the body of the \<open>try\<close> block, then the
  handler with its checks and its \<open>finally\<close>.
\<close>

definition executeCommand_try :: "connect_config \<Rightarrow> executeCommand_input \<Rightarrow> int \<Rightarrow> unit io" where
  "executeCommand_try cfg inp startTime =
     bindE (ssh_connect cfg) (\<lambda>_.
     bindE (ssh_execCommand (command inp) (workingDirectory inp)) (\<lambda>result.
     bindE date_now (\<lambda>now.
     let duration = now - startTime in
     events_emit (CommandOutput (stdout result) (stderr result) (code result) duration))))"

definition executeCommand_onEvent :: "app_config \<Rightarrow> executeCommand_input \<Rightarrow> unit io" where
  "executeCommand_onEvent app inp =
     (if \<not> truthy (privateKey app)
      then throw (Error ''SSH private key not configured in the app.'')
      else
        let finalUsername = js_or (username inp) (defaultUsername app) in
        if \<not> truthy finalUsername
        then throw (Error ''Username must be specified either in app config or input config.'')
        else
          bindE new_NodeSSH (\<lambda>_.
          bindE date_now (\<lambda>startTime.
          try_finally
            (executeCommand_try
               \<lparr>connect_host = host inp, connect_username = finalUsername,
                connect_port = port inp, connect_privateKey = privateKey app,
                connect_hostVerifier = None\<rparr> inp startTime)
            ssh_dispose)))"

section \<open>Execute Script\<close>

text \<open>
  \<open>onEvent\<close> of the Execute Script block (the module at the end of \<open>src/blocks/files.ts\<close>):
  the \<open>try\<close> block, the \<open>finally\<close> block, and the handler.
\<close>

definition executeScript_try ::
  "connect_config \<Rightarrow> executeScript_input \<Rightarrow> string \<Rightarrow> string \<Rightarrow> int \<Rightarrow> unit io" where
  "executeScript_try cfg inp finalInterpreter tempFile startTime =
     bindE (ssh_connect cfg) (\<lambda>_.
     let createScriptCommand =
           ''cat > '' @ dq @ tempFile @ dq @ '' << '' @ sq @ ''SPACELIFT_SCRIPT_EOF'' @ sq @ nl
           @ script inp @ nl @ ''SPACELIFT_SCRIPT_EOF'' in
     bindE (ssh_execCommand createScriptCommand None) (\<lambda>_.
     bindE (ssh_execCommand (''chmod +x '' @ dq @ tempFile @ dq) None) (\<lambda>_.
     let executeCommand = finalInterpreter @ '' '' @ dq @ tempFile @ dq in
     bindE (ssh_execCommand executeCommand (scriptWorkingDirectory inp)) (\<lambda>result.
     bindE date_now (\<lambda>now.
     let duration = now - startTime in
     events_emit (CommandOutput (stdout result) (stderr result) (code result) duration))))))"

definition executeScript_finally :: "string \<Rightarrow> unit io" where
  "executeScript_finally tempFile =
     bindE (try_catch
              (bindE (ssh_execCommand (''rm -f '' @ dq @ tempFile @ dq) None) (\<lambda>_. ret ()))
              (\<lambda>cleanupError.
                 console_warn (''Failed to clean up temporary script file '' @ tempFile @ '': ''
                               @ message cleanupError)))
       (\<lambda>_. ssh_dispose)"

definition executeScript_onEvent :: "app_config \<Rightarrow> executeScript_input \<Rightarrow> unit io" where
  "executeScript_onEvent app inp =
     (if \<not> truthy (privateKey app)
      then throw (Error ''SSH private key not configured in the app.'')
      else
        let finalUsername = js_or (username inp) (defaultUsername app) in
        if \<not> truthy finalUsername
        then throw (Error ''Username must be specified either in app config or input config.'')
        else
          let finalInterpreter = or_default (interpreter inp) ''sh'' in
          bindE new_NodeSSH (\<lambda>_.
          bindE date_now (\<lambda>startTime.
          bindE date_now (\<lambda>timestamp.
          bindE math_random_toString36 (\<lambda>r.
          let random = substring 2 8 r;
              tempFile = ''/tmp/spacelift_script_'' @ show_int timestamp @ ''_'' @ random @ ''.sh''
          in
          try_finally
            (executeScript_try
               \<lparr>connect_host = host inp, connect_username = finalUsername,
                connect_port = port inp, connect_privateKey = privateKey app,
                connect_hostVerifier = None\<rparr> inp finalInterpreter tempFile startTime)
            (executeScript_finally tempFile))))))"

section \<open>Upload File\<close>

text \<open>\<open>uploadFile.inputs.default.onEvent\<close> of \<open>src/blocks/files.ts\<close>.\<close>

text \<open>
  The part of the \<open>try\<close> block after \<open>tempFilePath\<close> is assigned, then the whole block,
  which completes with the value \<open>tempFilePath\<close> has at that moment: the \<open>finally\<close>
  block reads it.
\<close>

definition uploadFile_transfer :: "string \<Rightarrow> uploadFile_input \<Rightarrow> unit io" where
  "uploadFile_transfer tempFilePath inp =
     (let fileContent =
            (if encoding inp = Some ''base64'' then Buffer (Buffer_from_base64 (content inp))
             else Text (content inp)) in
      bindE (fs_writeFile tempFilePath fileContent) (\<lambda>_.
      bindE (ssh_putFile tempFilePath (destinationPath inp)) (\<lambda>_.
      bindE (case permissions inp of
               None \<Rightarrow> ret ()
             | Some perm \<Rightarrow>
                 if perm = [] then ret ()
                 else bindE (ssh_execCommand
                               (''chmod '' @ perm @ '' '' @ dq @ destinationPath inp @ dq) None)
                        (\<lambda>_. ret ())) (\<lambda>_.
      bindE (fs_stat tempFilePath) (\<lambda>size.
      events_emit (UploadOutput (destinationPath inp) size))))))"

definition uploadFile_try ::
  "connect_config \<Rightarrow> uploadFile_input \<Rightarrow> world \<Rightarrow> ((js_error + unit) \<times> string option) \<times> world" where
  "uploadFile_try cfg inp w =
     (case ssh_connect cfg w of
        (Inl e, w1) \<Rightarrow> ((Inl e, None), w1)
      | (Inr _, w1) \<Rightarrow>
          let tempDir = os_tmpdir w1;
              tempFilePath =
                path_join tempDir
                  (''ssh-upload-'' @ show_int (clock w1) @ ''-'' @ substr 2 9 (math_random w1))
          in case uploadFile_transfer tempFilePath inp w1 of
               (r, w2) \<Rightarrow> ((r, Some tempFilePath), w2))"

text \<open>The \<open>finally\<close> block of Upload File and of Download File.\<close>

definition transfer_finally :: "string option \<Rightarrow> unit io" where
  "transfer_finally tempFilePath =
     bindE ssh_dispose (\<lambda>_.
     if truthy tempFilePath
     then try_catch (fs_unlink (or_default tempFilePath [])) (\<lambda>e. ret ())
     else ret ())"

definition uploadFile_onEvent :: "app_config \<Rightarrow> uploadFile_input \<Rightarrow> unit io" where
  "uploadFile_onEvent app inp w =
     (if \<not> truthy (privateKey app)
      then throw (Error ''SSH private key not configured in the app.'') w
      else
        let finalUsername = js_or (username inp) (defaultUsername app) in
        if \<not> truthy finalUsername
        then throw (Error ''Username must be specified either in app config or input config.'') w
        else
          case new_NodeSSH w of (_, w0) \<Rightarrow>
          case uploadFile_try
                 \<lparr>connect_host = host inp, connect_username = finalUsername,
                  connect_port = port inp, connect_privateKey = privateKey app,
                  connect_hostVerifier = None\<rparr> inp w0 of
            ((r, tempFilePath), w1) \<Rightarrow>
              (case transfer_finally tempFilePath w1 of
                 (Inl e, w2) \<Rightarrow> (Inl e, w2)
               | (Inr _, w2) \<Rightarrow> (r, w2)))"

section \<open>Download File\<close>

text \<open>\<open>downloadFile.inputs.default.onEvent\<close> of \<open>src/blocks/files.ts\<close>.\<close>

text \<open>
  The built-ins of the JavaScript runtime that parse text are parameters of the model.
  A number is \<open>NaN\<close> or a real; \<open>js_match\<close> gives null (\<open>None\<close>) or the match array, whose
  entry 0 is the match and entry i the i-th group, undefined when the group took no part.
  The regular expressions of the source are named, not spelled.
\<close>

datatype jsnum = NaN | Num real

datatype regex =
    LoadSeparators
  | MemTotal
  | MemFree
  | MemAvailable
  | ProcUptime
  | UptimeOutput

record js_builtins =
  js_trim :: "string \<Rightarrow> string"
  js_toLowerCase :: "string \<Rightarrow> string"
  js_split :: "string \<Rightarrow> string \<Rightarrow> string list"
  js_split_regex :: "regex \<Rightarrow> string \<Rightarrow> string list"
  js_match :: "regex \<Rightarrow> string \<Rightarrow> string option list option"
  js_parseFloat :: "string option \<Rightarrow> jsnum"
  js_parseInt :: "string option \<Rightarrow> jsnum"
  js_toISOString :: "jsnum \<Rightarrow> string option"

definition num_times :: "jsnum \<Rightarrow> jsnum \<Rightarrow> jsnum" where
  "num_times a b = (case (a, b) of (Num x, Num y) \<Rightarrow> Num (x * y) | _ \<Rightarrow> NaN)"

definition num_plus :: "jsnum \<Rightarrow> jsnum \<Rightarrow> jsnum" where
  "num_plus a b = (case (a, b) of (Num x, Num y) \<Rightarrow> Num (x + y) | _ \<Rightarrow> NaN)"

text \<open>\<open>x || 0\<close> for a number: \<open>NaN\<close> and 0 are falsy.\<close>

definition num_or_zero :: "jsnum \<Rightarrow> jsnum" where
  "num_or_zero a = (case a of NaN \<Rightarrow> Num 0 | Num x \<Rightarrow> Num x)"

text \<open>\<open>xs[i]\<close>: undefined beyond the end.\<close>

definition at_index :: "'a list \<Rightarrow> nat \<Rightarrow> 'a option" where
  "at_index xs i = (if i < length xs then Some (xs ! i) else None)"

text \<open>\<open>new Date(n).toISOString()\<close> throws a RangeError for a date that is not valid.\<close>

definition date_toISOString :: "js_builtins \<Rightarrow> jsnum \<Rightarrow> string io" where
  "date_toISOString L n =
     (case js_toISOString L n of
        None \<Rightarrow> throw (Error ''Invalid time value'')
      | Some t \<Rightarrow> ret t)"

definition downloadFile_transfer :: "js_builtins \<Rightarrow> string \<Rightarrow> downloadFile_input \<Rightarrow> unit io" where
  "downloadFile_transfer L tempFilePath inp =
     bindE (ssh_getFile tempFilePath (sourcePath inp)) (\<lambda>_.
     bindE (fs_readFile tempFilePath) (\<lambda>buffer.
     let content =
           (if downloadEncoding inp = Some ''base64'' then Buffer_toString_base64 buffer
            else Buffer_toString_utf8 buffer) in
     bindE (fs_stat tempFilePath) (\<lambda>size.
     bindE (ssh_execCommand
              (''stat -c '' @ dq @ ''%a %Y'' @ dq @ '' '' @ dq @ sourcePath inp @ dq) None)
       (\<lambda>statResult.
     let parts = js_split L '' '' (js_trim L (stdout statResult));
         permissions = at_index parts 0;
         modifiedTimestamp = at_index parts 1 in
     bindE (date_toISOString L (num_times (js_parseInt L modifiedTimestamp) (Num 1000)))
       (\<lambda>modifiedTime.
     events_emit (DownloadOutput content (sourcePath inp) size permissions modifiedTime))))))"

definition downloadFile_try ::
  "js_builtins \<Rightarrow> connect_config \<Rightarrow> downloadFile_input \<Rightarrow> world
     \<Rightarrow> ((js_error + unit) \<times> string option) \<times> world" where
  "downloadFile_try L cfg inp w =
     (case ssh_connect cfg w of
        (Inl e, w1) \<Rightarrow> ((Inl e, None), w1)
      | (Inr _, w1) \<Rightarrow>
          let tempDir = os_tmpdir w1;
              tempFilePath =
                path_join tempDir
                  (''ssh-download-'' @ show_int (clock w1) @ ''-'' @ substr 2 9 (math_random w1))
          in case downloadFile_transfer L tempFilePath inp w1 of
               (r, w2) \<Rightarrow> ((r, Some tempFilePath), w2))"

definition downloadFile_onEvent :: "js_builtins \<Rightarrow> app_config \<Rightarrow> downloadFile_input \<Rightarrow> unit io" where
  "downloadFile_onEvent L app inp w =
     (if \<not> truthy (privateKey app)
      then throw (Error ''SSH private key not configured in the app.'') w
      else
        let finalUsername = js_or (username inp) (defaultUsername app) in
        if \<not> truthy finalUsername
        then throw (Error ''Username must be specified either in app config or input config.'') w
        else
          case new_NodeSSH w of (_, w0) \<Rightarrow>
          case downloadFile_try L
                 \<lparr>connect_host = host inp, connect_username = finalUsername,
                  connect_port = port inp, connect_privateKey = privateKey app,
                  connect_hostVerifier = None\<rparr> inp w0 of
            ((r, tempFilePath), w1) \<Rightarrow>
              (case transfer_finally tempFilePath w1 of
                 (Inl e, w2) \<Rightarrow> (Inl e, w2)
               | (Inr _, w2) \<Rightarrow> (r, w2)))"

text \<open>
  The \<open>default\<close> each block declares for its \<open>encoding\<close> input, and the platform filling
  an input the caller left out with the declared default.
\<close>

definition uploadFile_encoding_default :: string where
  "uploadFile_encoding_default = ''text''"

definition downloadFile_encoding_default :: string where
  "downloadFile_encoding_default = ''text''"

definition with_default :: "string \<Rightarrow> string option \<Rightarrow> string option" where
  "with_default d v = (case v of None \<Rightarrow> Some d | Some x \<Rightarrow> Some x)"

section \<open>Host Metadata\<close>

text \<open>\<open>onSync\<close> of \<open>src/blocks/hostMetadata.ts\<close>, and its result.\<close>

record load_average =
  load_1min :: jsnum
  load_5min :: jsnum
  load_15min :: jsnum

record signal_updates =
  sig_hostname :: string
  sig_osType :: string
  sig_osRelease :: string
  sig_architecture :: string
  sig_uptime :: jsnum
  sig_loadAverage :: load_average
  sig_memoryTotal :: jsnum
  sig_memoryFree :: jsnum

record sync_result =
  newStatus :: string
  customStatusDescription :: "string option"
  signalUpdates :: "signal_updates option"

definition zero_load :: load_average where
  "zero_load = \<lparr>load_1min = Num 0, load_5min = Num 0, load_15min = Num 0\<rparr>"

text \<open>\<open>m[i]\<close> of a match array.\<close>

definition group :: "string option list \<Rightarrow> nat \<Rightarrow> string option" where
  "group m i = (case at_index m i of None \<Rightarrow> None | Some g \<Rightarrow> g)"

definition loadavg_command :: string where
  "loadavg_command =
     ''cat /proc/loadavg 2>/dev/null || uptime | grep -o '' @ sq
     @ ''load average[s]*: [0-9.]*[, ]*[0-9.]*[, ]*[0-9.]*'' @ sq @ '' | sed '' @ sq
     @ ''s/load average[s]*: //'' @ sq"

text \<open>The load average block, with its own \<open>try\<close> and \<open>catch\<close>.\<close>

definition loadAverage_probe :: "js_builtins \<Rightarrow> load_average io" where
  "loadAverage_probe L =
     try_catch
       (bindE (ssh_execCommand loadavg_command None) (\<lambda>loadResult.
        if code loadResult = Some 0 \<and> stdout loadResult \<noteq> []
        then
          let loads = map (\<lambda>s. js_parseFloat L (Some s))
                        (js_split_regex L LoadSeparators (js_trim L (stdout loadResult))) in
          if 3 \<le> length loads
          then ret \<lparr>load_1min = num_or_zero (loads ! 0), load_5min = num_or_zero (loads ! 1),
                    load_15min = num_or_zero (loads ! 2)\<rparr>
          else ret zero_load
        else ret zero_load))
       (\<lambda>e. bindE (console_warn (''Failed to get load average: '' @ message e))
               (\<lambda>_. ret zero_load))"

text \<open>The memory block: \<open>(memoryTotal, memoryFree)\<close>, MemAvailable before MemFree.\<close>

definition memory_probe :: "js_builtins \<Rightarrow> (jsnum \<times> jsnum) io" where
  "memory_probe L =
     try_catch
       (bindE (ssh_execCommand ''cat /proc/meminfo 2>/dev/null || vm_stat'' None) (\<lambda>memResult.
        if code memResult = Some 0 \<and> stdout memResult \<noteq> []
        then
          let memTotalMatch = js_match L MemTotal (stdout memResult);
              memFreeMatch = js_match L MemFree (stdout memResult);
              memAvailMatch = js_match L MemAvailable (stdout memResult);
              memoryTotal =
                (case memTotalMatch of
                   None \<Rightarrow> Num 0
                 | Some m \<Rightarrow> num_times (js_parseInt L (group m 1)) (Num 1024));
              memoryFree =
                (case memAvailMatch of
                   Some m \<Rightarrow> num_times (js_parseInt L (group m 1)) (Num 1024)
                 | None \<Rightarrow>
                     (case memFreeMatch of
                        Some m \<Rightarrow> num_times (js_parseInt L (group m 1)) (Num 1024)
                      | None \<Rightarrow> Num 0))
          in ret (memoryTotal, memoryFree)
        else ret (Num 0, Num 0)))
       (\<lambda>e. bindE (console_warn (''Failed to get memory info: '' @ message e))
               (\<lambda>_. ret (Num 0, Num 0)))"

text \<open>The uptime block parses the answer of the earlier \<open>uptime\<close> command.\<close>

definition uptimeSeconds_parse :: "js_builtins \<Rightarrow> exec_result \<Rightarrow> jsnum io" where
  "uptimeSeconds_parse L uptime =
     try_catch
       (ret (if code uptime = Some 0 \<and> stdout uptime \<noteq> []
             then
               (case js_match L ProcUptime (stdout uptime) of
                  Some m \<Rightarrow> js_parseFloat L (group m 1)
                | None \<Rightarrow>
                    (case js_match L UptimeOutput (stdout uptime) of
                       None \<Rightarrow> Num 0
                     | Some m \<Rightarrow>
                         let days = js_parseInt L (js_or (group m 1) (Some ''0''));
                             hours = js_parseInt L (js_or (group m 2) (Some ''0''));
                             minutes = js_parseInt L (js_or (group m 3) (Some ''0''))
                         in num_plus
                              (num_plus (num_times days (Num 86400)) (num_times hours (Num 3600)))
                              (num_times minutes (Num 60))))
             else Num 0))
       (\<lambda>e. bindE (console_warn (''Failed to parse uptime: '' @ message e)) (\<lambda>_. ret (Num 0)))"

definition hostMetadata_try :: "js_builtins \<Rightarrow> connect_config \<Rightarrow> sync_result io" where
  "hostMetadata_try L cfg =
     bindE (ssh_connect cfg) (\<lambda>_.
     bindE (ssh_execCommand ''hostname'' None) (\<lambda>hostname.
     bindE (ssh_execCommand ''uname -s'' None) (\<lambda>osType.
     bindE (ssh_execCommand ''uname -r'' None) (\<lambda>osRelease.
     bindE (ssh_execCommand ''uname -m'' None) (\<lambda>architecture.
     bindE (ssh_execCommand ''cat /proc/uptime 2>/dev/null || uptime'' None) (\<lambda>uptime.
     bindE (loadAverage_probe L) (\<lambda>loadAverage.
     bindE (memory_probe L) (\<lambda>(memoryTotal, memoryFree).
     bindE (uptimeSeconds_parse L uptime) (\<lambda>uptimeSeconds.
     ret \<lparr>newStatus = ''ready'', customStatusDescription = None,
          signalUpdates = Some
            \<lparr>sig_hostname = (if code hostname = Some 0 then js_trim L (stdout hostname) else []),
             sig_osType =
               (if code osType = Some 0 then js_toLowerCase L (js_trim L (stdout osType)) else []),
             sig_osRelease = (if code osRelease = Some 0 then js_trim L (stdout osRelease) else []),
             sig_architecture =
               (if code architecture = Some 0 then js_trim L (stdout architecture) else []),
             sig_uptime = uptimeSeconds,
             sig_loadAverage = loadAverage,
             sig_memoryTotal = memoryTotal,
             sig_memoryFree = memoryFree\<rparr>\<rparr>)))))))))"

definition failed :: "string \<Rightarrow> sync_result" where
  "failed description =
     \<lparr>newStatus = ''failed'', customStatusDescription = Some description,
      signalUpdates = None\<rparr>"

definition hostMetadata_onSync :: "js_builtins \<Rightarrow> app_config \<Rightarrow> connection_input \<Rightarrow> sync_result io" where
  "hostMetadata_onSync L app inp =
     (if \<not> truthy (privateKey app)
      then ret (failed ''SSH private key not configured in the app.'')
      else
        let finalUsername = js_or (username inp) (defaultUsername app) in
        if \<not> truthy finalUsername
        then ret (failed ''Username must be specified either in app config or block config.'')
        else
          bindE new_NodeSSH (\<lambda>_.
          try_finally
            (try_catch
               (hostMetadata_try L
                  \<lparr>connect_host = host inp, connect_username = finalUsername,
                   connect_port = port inp, connect_privateKey = privateKey app,
                   connect_hostVerifier = None\<rparr>)
               (\<lambda>error. ret (failed (''Failed to connect to host: '' @ message error))))
            ssh_dispose))"

text \<open>The app's own \<open>onSync\<close>.\<close>

definition app_onSync :: "app_config \<Rightarrow> sync_result" where
  "app_onSync app =
     (if \<not> truthy (privateKey app) then failed ''SSH Private Key is required''
      else \<lparr>newStatus = ''ready'', customStatusDescription = None, signalUpdates = None\<rparr>)"

section \<open>Properties stated about the handlers\<close>

text \<open>
  The configuration is missing when the private key is falsy, or when both the per-call
  and the default username are; the message of the failure that follows names the first
  check that fails (\<open>scope\<close> is \<open>input\<close> for the event handlers and \<open>block\<close> for
  Host Metadata).
\<close>

definition config_missing :: "app_config \<Rightarrow> string option \<Rightarrow> bool" where
  "config_missing app u =
     (\<not> truthy (privateKey app) \<or> (\<not> truthy u \<and> \<not> truthy (defaultUsername app)))"

definition config_message :: "app_config \<Rightarrow> string \<Rightarrow> string" where
  "config_message app scope =
     (if truthy (privateKey app)
      then ''Username must be specified either in app config or '' @ scope @ '' config.''
      else ''SSH private key not configured in the app.'')"

text \<open>The calls a run from \<open>w\<close> to \<open>w'\<close> has made.\<close>

definition calls_made :: "world \<Rightarrow> world \<Rightarrow> call list" where
  "calls_made w w' = drop (length (trace w)) (trace w')"

text \<open>What a handler leaves unchanged, and that it only adds to the trace.\<close>

definition keeps :: "(world \<Rightarrow> 'x) \<Rightarrow> 'a io \<Rightarrow> bool" where
  "keeps g m = (\<forall>w. g (snd (m w)) = g w)"

definition grows :: "'a io \<Rightarrow> bool" where
  "grows m = (\<forall>w. \<exists>ts. trace (snd (m w)) = trace w @ ts)"

text \<open>
  The username the claim describes: the per-call one when it is a non-empty string, the
  default of the app otherwise; and the options a handler is expected to connect with.
\<close>

definition effective_username :: "string option \<Rightarrow> string option \<Rightarrow> string option" where
  "effective_username perCall appDefault =
     (case perCall of None \<Rightarrow> appDefault | Some s \<Rightarrow> if s = [] then appDefault else Some s)"

definition connection_of :: "app_config \<Rightarrow> 'a connection_input_scheme \<Rightarrow> connect_config" where
  "connection_of app inp =
     \<lparr>connect_host = host inp,
      connect_username = effective_username (username inp) (defaultUsername app),
      connect_port = port inp, connect_privateKey = privateKey app,
      connect_hostVerifier = None\<rparr>"

definition starts :: "call \<Rightarrow> 'a io \<Rightarrow> bool" where
  "starts c m = (\<forall>w. \<exists>ts. trace (snd (m w)) = trace w @ c # ts)"

text \<open>A \<open>finally\<close> block that completes normally from every world.\<close>

definition never_throws :: "unit io \<Rightarrow> bool" where
  "never_throws m = (\<forall>w. fst (m w) = Inr ())"

text \<open>The local staging paths of Upload File and Download File, and the remote script path.\<close>

definition upload_temp_path :: "world \<Rightarrow> connect_config \<Rightarrow> string" where
  "upload_temp_path w cfg =
     path_join (os_tmpdir w)
       (''ssh-upload-'' @ show_int (clock w + int (latency w (Connect cfg))) @ ''-''
        @ substr 2 9 (math_random w))"

definition download_temp_path :: "world \<Rightarrow> connect_config \<Rightarrow> string" where
  "download_temp_path w cfg =
     path_join (os_tmpdir w)
       (''ssh-download-'' @ show_int (clock w + int (latency w (Connect cfg))) @ ''-''
        @ substr 2 9 (math_random w))"

definition script_temp_path :: "world \<Rightarrow> string" where
  "script_temp_path w =
     ''/tmp/spacelift_script_'' @ show_int (clock w) @ ''_'' @ substring 2 8 (math_random w)
     @ ''.sh''"

text \<open>The cleanup command of Execute Script and the warning written when it fails.\<close>

definition rm_command :: "world \<Rightarrow> call" where
  "rm_command w = ExecCommand (''rm -f '' @ dq @ script_temp_path w @ dq) None"

definition cleanup_warning :: "world \<Rightarrow> string \<Rightarrow> string" where
  "cleanup_warning w m =
     ''Failed to clean up temporary script file '' @ script_temp_path w @ '': '' @ m"

text \<open>
  The event Execute Command emits when the command has been answered: the answer of the
  remote host and the time the connection and the command have taken.
\<close>

definition command_result :: "world \<Rightarrow> app_config \<Rightarrow> executeCommand_input \<Rightarrow> event" where
  "command_result w app inp =
     (let result = exec_reply w (command inp) (workingDirectory inp) in
      CommandOutput (stdout result) (stderr result) (code result)
        (int (latency w (Connect (connection_of app inp)))
         + int (latency w (ExecCommand (command inp) (workingDirectory inp)))))"

text \<open>
  The three commands of Execute Script (staging the file, marking it executable, running
  it) and the event emitted when the last one has been answered.
\<close>

definition stage_command :: "world \<Rightarrow> executeScript_input \<Rightarrow> call" where
  "stage_command w inp =
     ExecCommand
       (''cat > '' @ dq @ script_temp_path w @ dq @ '' << '' @ sq @ ''SPACELIFT_SCRIPT_EOF'' @ sq
        @ nl @ script inp @ nl @ ''SPACELIFT_SCRIPT_EOF'') None"

definition chmod_command :: "world \<Rightarrow> call" where
  "chmod_command w = ExecCommand (''chmod +x '' @ dq @ script_temp_path w @ dq) None"

definition run_command :: "world \<Rightarrow> executeScript_input \<Rightarrow> call" where
  "run_command w inp =
     ExecCommand (or_default (interpreter inp) ''sh'' @ '' '' @ dq @ script_temp_path w @ dq)
       (scriptWorkingDirectory inp)"

definition script_result :: "world \<Rightarrow> app_config \<Rightarrow> executeScript_input \<Rightarrow> event" where
  "script_result w app inp =
     (let result =
            exec_reply w (or_default (interpreter inp) ''sh'' @ '' '' @ dq @ script_temp_path w @ dq)
              (scriptWorkingDirectory inp) in
      CommandOutput (stdout result) (stderr result) (code result)
        (int (latency w (Connect (connection_of app inp))) + int (latency w (stage_command w inp))
         + int (latency w (chmod_command w)) + int (latency w (run_command w inp))))"

text \<open>The first of a list of calls that the environment makes throw, if any.\<close>

fun first_fault :: "world \<Rightarrow> call list \<Rightarrow> string option" where
  "first_fault w [] = None"
| "first_fault w (c # cs) = (case fault w c of Some m \<Rightarrow> Some m | None \<Rightarrow> first_fault w cs)"

definition completion_of :: "string option \<Rightarrow> js_error + unit" where
  "completion_of f = (case f of Some m \<Rightarrow> Inl (Error m) | None \<Rightarrow> Inr ())"

text \<open>
  The bytes Upload File writes, the command with which it sets the permissions, the calls
  it makes in order once connected and from the start, and the event it emits.
\<close>

definition upload_bytes :: "uploadFile_input \<Rightarrow> byte list" where
  "upload_bytes inp =
     (if encoding inp = Some ''base64'' then Buffer_from_base64 (content inp)
      else utf8_encode (content inp))"

definition permission_command :: "uploadFile_input \<Rightarrow> string" where
  "permission_command inp =
     ''chmod '' @ or_default (permissions inp) [] @ '' '' @ dq @ destinationPath inp @ dq"

definition upload_result :: "uploadFile_input \<Rightarrow> event" where
  "upload_result inp = UploadOutput (destinationPath inp) (length (upload_bytes inp))"

text \<open>
  The files of the host after an upload that went through: the destination holds the
  uploaded bytes, and the permission command, when there is one, has run on that.
\<close>

definition uploaded_files :: "world \<Rightarrow> uploadFile_input \<Rightarrow> string \<rightharpoonup> byte list" where
  "uploaded_files w inp =
     (let files = (remote_files w (host inp, port inp))(destinationPath inp \<mapsto> upload_bytes inp)
      in if truthy (permissions inp) then exec_effect w (permission_command inp) None files
         else files)"

definition transfer_calls :: "string \<Rightarrow> uploadFile_input \<Rightarrow> call list" where
  "transfer_calls p inp =
     [WriteFile p (upload_bytes inp), PutFile p (destinationPath inp)]
     @ (if truthy (permissions inp) then [ExecCommand (permission_command inp) None] else [])
     @ [Stat p, Emit (upload_result inp)]"

definition upload_calls :: "world \<Rightarrow> app_config \<Rightarrow> uploadFile_input \<Rightarrow> call list" where
  "upload_calls w app inp =
     Connect (connection_of app inp)
     # transfer_calls (upload_temp_path w (connection_of app inp)) inp"









section \<open>Example runs\<close>

text \<open>
  A world in which every call succeeds at once and every command prints nothing, exits
  with 0 and leaves the files of its host as they are, an app with and without a private key, one request for each block, and the
  built-ins at the strings these runs meet.
\<close>

definition calm_world :: world where
  "calm_world =
     \<lparr>clock = 0, trace = [], session = NoSession, remote_files = (\<lambda>_. Map.empty),
      local_files = Map.empty, emitted = [], warnings = [], fault = (\<lambda>_. None),
      latency = (\<lambda>_. 0),
      exec_reply = (\<lambda>cmd cwd. \<lparr>stdout = [], stderr = [], code = Some 0\<rparr>),
      exec_effect = (\<lambda>cmd cwd files. files), unconnected = (\<lambda>c. ''Not connected''),
      missing = (\<lambda>c. ''No such file''),
      os_tmpdir = ''/tmp'', math_random = ''0.4fzyo82mvyr''\<rparr>"

definition example_app :: app_config where
  "example_app =
     \<lparr>privateKey = Some ''KEY'', defaultUsername = Some ''deploy'', defaultPort = None,
      knownHosts = None\<rparr>"

definition no_key_app :: app_config where
  "no_key_app =
     \<lparr>privateKey = None, defaultUsername = Some ''deploy'', defaultPort = None,
      knownHosts = None\<rparr>"

definition no_user_app :: app_config where
  "no_user_app =
     \<lparr>privateKey = Some ''KEY'', defaultUsername = None, defaultPort = None,
      knownHosts = None\<rparr>"

definition example_command :: executeCommand_input where
  "example_command =
     \<lparr>host = ''10.0.0.5'', port = 22, username = None, command = ''exit 7'',
      workingDirectory = None\<rparr>"

definition example_script :: executeScript_input where
  "example_script =
     \<lparr>host = ''10.0.0.5'', port = 22, username = None, script = ''exit 7'',
      interpreter = None, scriptWorkingDirectory = None\<rparr>"

definition example_upload :: uploadFile_input where
  "example_upload =
     \<lparr>host = ''10.0.0.5'', port = 22, username = None, content = ascii ''hi'',
      destinationPath = ''/srv/a.txt'', encoding = Some ''text'', permissions = Some ''0644''\<rparr>"

definition example_download :: downloadFile_input where
  "example_download =
     \<lparr>host = ''10.0.0.5'', port = 22, username = None, sourcePath = ''/srv/a.txt'',
      downloadEncoding = Some ''text''\<rparr>"

definition example_metadata :: connection_input where
  "example_metadata = \<lparr>host = ''10.0.0.5'', port = 22, username = None\<rparr>"

definition example_builtins :: js_builtins where
  "example_builtins =
     \<lparr>js_trim = (\<lambda>s. s), js_toLowerCase = (\<lambda>s. s),
      js_split = (\<lambda>sep s. if s = ''644 0'' then [''644'', ''0''] else [s]),
      js_split_regex = (\<lambda>r s. [s]),
      js_match = (\<lambda>r s. None),
      js_parseFloat = (\<lambda>v. NaN),
      js_parseInt = (\<lambda>v. if v = Some ''0'' then Num 0 else NaN),
      js_toISOString = (\<lambda>n. if n = Num 0 then Some ''1970-01-01T00:00:00.000Z'' else None)\<rparr>"

text \<open>
  Worlds in which the removal of the remote script fails, the connection is refused, and
  the local \<open>unlink\<close> fails.
\<close>

definition rm_fails_world :: world where
  "rm_fails_world =
     calm_world\<lparr>fault := (\<lambda>c. case c of
         ExecCommand cmd cwd \<Rightarrow> if take 6 cmd = ''rm -f '' then Some ''Timed out'' else None
       | _ \<Rightarrow> None)\<rparr>"

definition refusing_world :: world where
  "refusing_world =
     calm_world\<lparr>fault := (\<lambda>c. case c of Connect cfg \<Rightarrow> Some ''connect ECONNREFUSED''
                                   | _ \<Rightarrow> None)\<rparr>"

definition unlink_fails_world :: world where
  "unlink_fails_world =
     calm_world\<lparr>fault := (\<lambda>c. case c of Unlink p \<Rightarrow> Some ''EPERM: operation not permitted''
                                   | _ \<Rightarrow> None)\<rparr>"

text \<open>A world in which \<open>exit 7\<close>, as a command or as the script run by \<open>sh\<close>, exits with 7.\<close>

definition exit7_world :: world where
  "exit7_world =
     calm_world\<lparr>exec_reply := (\<lambda>cmd cwd.
        \<lparr>stdout = [], stderr = [],
         code = Some (if cmd = ''exit 7'' \<or> take 3 cmd = ''sh '' then 7 else 0)\<rparr>)\<rparr>"

text \<open>
  A world in which connecting takes 250 ms and running the script 40 ms.
\<close>

definition slow_connect_world :: world where
  "slow_connect_world =
     calm_world\<lparr>latency := (\<lambda>c. case c of
         Connect cfg \<Rightarrow> 250
       | ExecCommand cmd cwd \<Rightarrow> if take 3 cmd = ''sh '' then 40 else 0
       | _ \<Rightarrow> 0)\<rparr>"

text \<open>Every remote command is answered with exit code 1 and a complaint.\<close>

definition denied_reply :: "string \<Rightarrow> string option \<Rightarrow> exec_result" where
  "denied_reply cmd cwd = \<lparr>stdout = [], stderr = ''Operation not permitted'', code = Some 1\<rparr>"

text \<open>
  A server that presents the host key \<open>presented\<close>: a connection that brings a verifier
  is refused when the verifier rejects that key, and a connection without one is accepted.
  An app whose known hosts pin another key for the same host.
\<close>

definition verifying_world :: "string \<Rightarrow> world" where
  "verifying_world presented =
     calm_world\<lparr>fault := (\<lambda>c. case c of
         Connect cfg \<Rightarrow>
           (case connect_hostVerifier cfg of
              None \<Rightarrow> None
            | Some verify \<Rightarrow>
                if verify presented then None else Some ''Host denied (verification failed)'')
       | _ \<Rightarrow> None)\<rparr>"

definition pinned_app :: app_config where
  "pinned_app = example_app\<lparr>knownHosts := Some [''10.0.0.5'' \<mapsto> ''SHA256:expected'']\<rparr>"

text \<open>
  Worlds in which the channel for \<open>hostname\<close>, or the one for the load average, cannot
  be opened on an established connection.
\<close>

definition hostname_fails_world :: world where
  "hostname_fails_world =
     calm_world\<lparr>fault := (\<lambda>c. case c of
         ExecCommand cmd cwd \<Rightarrow>
           if cmd = ''hostname'' then Some ''(SSH) Channel open failure: open failed'' else None
       | _ \<Rightarrow> None)\<rparr>"

definition loadavg_fails_world :: world where
  "loadavg_fails_world =
     calm_world\<lparr>fault := (\<lambda>c. case c of
         ExecCommand cmd cwd \<Rightarrow>
           if cmd = loadavg_command then Some ''(SSH) Channel open failure: open failed''
           else None
       | _ \<Rightarrow> None)\<rparr>"

text \<open>
  A world whose host serves the two bytes of \<open>hi\<close> at \<open>/srv/a.txt\<close> and answers
  \<open>stat\<close> with mode 644 and time 0.
\<close>

definition served_world :: world where
  "served_world =
     calm_world\<lparr>remote_files :=
         (\<lambda>ep. if ep = (''10.0.0.5'', 22) then [''/srv/a.txt'' \<mapsto> [0x68, 0x69]] else Map.empty),
       exec_reply := (\<lambda>cmd cwd. \<lparr>stdout = ''644 0'', stderr = [], code = Some 0\<rparr>)\<rparr>"

text \<open>A world like the calm one whose hosts answer \<open>stat\<close> with mode 644 and time 0.\<close>

definition stat_world :: world where
  "stat_world =
     calm_world\<lparr>exec_reply := (\<lambda>cmd cwd. \<lparr>stdout = ''644 0'', stderr = [], code = Some 0\<rparr>)\<rparr>"

text \<open>
  A world like that one whose shell, given the line that Upload File makes of the
  permissions \<open>0644 /x; : >\<close> and the path \<open>/srv/a.txt\<close>, empties that file.
\<close>

definition truncating_world :: world where
  "truncating_world =
     stat_world\<lparr>exec_effect := (\<lambda>cmd cwd files.
        if cmd = ''chmod 0644 /x; : > '' @ dq @ ''/srv/a.txt'' @ dq
        then files(''/srv/a.txt'' \<mapsto> []) else files)\<rparr>"

section \<open>Composing runs\<close>

named_theorems keeps_intros
named_theorems grows_intros

lemma keeps_ret [keeps_intros]: "keeps g (ret x)"
  by (simp add: keeps_def ret_def)

lemma keeps_throw [keeps_intros]: "keeps g (throw e)"
  by (simp add: keeps_def throw_def)

lemma keeps_bindE [keeps_intros]:
  assumes "keeps g m" and "\<And>x. keeps g (f x)"
  shows "keeps g (bindE m f)"
proof -
  have "g (snd (bindE m f w)) = g w" for w
  proof (cases "m w")
    case (Pair r w1)
    with assms(1) have w1: "g w1 = g w"
      by (metis keeps_def snd_conv)
    show ?thesis
    proof (cases r)
      case (Inl e)
      with Pair w1 show ?thesis by (simp add: bindE_def)
    next
      case (Inr x)
      with Pair have "bindE m f w = f x w1" by (simp add: bindE_def)
      with assms(2) [of x] w1 show ?thesis by (simp add: keeps_def)
    qed
  qed
  then show ?thesis by (simp add: keeps_def)
qed

lemma keeps_try_catch [keeps_intros]:
  assumes "keeps g m" and "\<And>e. keeps g (h e)"
  shows "keeps g (try_catch m h)"
proof -
  have "g (snd (try_catch m h w)) = g w" for w
  proof (cases "m w")
    case (Pair r w1)
    with assms(1) have w1: "g w1 = g w"
      by (metis keeps_def snd_conv)
    show ?thesis
    proof (cases r)
      case (Inl e)
      with Pair have "try_catch m h w = h e w1" by (simp add: try_catch_def)
      with assms(2) [of e] w1 show ?thesis by (simp add: keeps_def)
    next
      case (Inr x)
      with Pair w1 show ?thesis by (simp add: try_catch_def)
    qed
  qed
  then show ?thesis by (simp add: keeps_def)
qed

lemma snd_try_finally: "snd (try_finally m fin w) = snd (fin (snd (m w)))"
  by (simp add: try_finally_def split: prod.splits sum.splits)

lemma keeps_try_finally [keeps_intros]:
  assumes "keeps g m" and "keeps g fin"
  shows "keeps g (try_finally m fin)"
  using assms by (simp add: keeps_def snd_try_finally)

lemma keeps_if [keeps_intros]: "keeps g a \<Longrightarrow> keeps g b \<Longrightarrow> keeps g (if c then a else b)"
  by simp

lemma keeps_let [keeps_intros]: "(\<And>x. keeps g (f x)) \<Longrightarrow> keeps g (let x = v in f x)"
  by simp

lemma keeps_case_prod [keeps_intros]: "(\<And>a b. keeps g (f a b)) \<Longrightarrow> keeps g (case p of (a, b) \<Rightarrow> f a b)"
  by (cases p) simp

lemma keeps_case_option [keeps_intros]:
  "keeps g a \<Longrightarrow> (\<And>x. keeps g (f x)) \<Longrightarrow> keeps g (case v of None \<Rightarrow> a | Some x \<Rightarrow> f x)"
  by (cases v) simp_all

lemma grows_ret [grows_intros]: "grows (ret x)"
  by (simp add: grows_def ret_def)

lemma grows_throw [grows_intros]: "grows (throw e)"
  by (simp add: grows_def throw_def)

lemma grows_bindE [grows_intros]:
  assumes "grows m" and "\<And>x. grows (f x)"
  shows "grows (bindE m f)"
proof -
  have "\<exists>ts. trace (snd (bindE m f w)) = trace w @ ts" for w
  proof (cases "m w")
    case (Pair r w1)
    from assms(1) obtain ts where ts: "trace (snd (m w)) = trace w @ ts"
      unfolding grows_def by blast
    with Pair have w1: "trace w1 = trace w @ ts" by simp
    show ?thesis
    proof (cases r)
      case (Inl e)
      with Pair w1 show ?thesis by (simp add: bindE_def)
    next
      case (Inr x)
      with Pair have eq: "bindE m f w = f x w1" by (simp add: bindE_def)
      from assms(2) [of x] obtain us where "trace (snd (f x w1)) = trace w1 @ us"
        unfolding grows_def by blast
      with eq w1 show ?thesis by simp
    qed
  qed
  then show ?thesis by (simp add: grows_def)
qed

lemma grows_try_catch [grows_intros]:
  assumes "grows m" and "\<And>e. grows (h e)"
  shows "grows (try_catch m h)"
proof -
  have "\<exists>ts. trace (snd (try_catch m h w)) = trace w @ ts" for w
  proof (cases "m w")
    case (Pair r w1)
    from assms(1) obtain ts where ts: "trace (snd (m w)) = trace w @ ts"
      unfolding grows_def by blast
    with Pair have w1: "trace w1 = trace w @ ts" by simp
    show ?thesis
    proof (cases r)
      case (Inl e)
      with Pair have eq: "try_catch m h w = h e w1" by (simp add: try_catch_def)
      from assms(2) [of e] obtain us where "trace (snd (h e w1)) = trace w1 @ us"
        unfolding grows_def by blast
      with eq w1 show ?thesis by simp
    next
      case (Inr x)
      with Pair w1 show ?thesis by (simp add: try_catch_def)
    qed
  qed
  then show ?thesis by (simp add: grows_def)
qed

lemma grows_try_finally [grows_intros]:
  assumes "grows m" and "grows fin"
  shows "grows (try_finally m fin)"
proof -
  have "\<exists>ts. trace (snd (try_finally m fin w)) = trace w @ ts" for w
  proof -
    from assms(1) obtain ts where ts: "trace (snd (m w)) = trace w @ ts"
      unfolding grows_def by blast
    from assms(2) obtain us where "trace (snd (fin (snd (m w)))) = trace (snd (m w)) @ us"
      unfolding grows_def by blast
    with ts show ?thesis by (simp add: snd_try_finally)
  qed
  then show ?thesis by (simp add: grows_def)
qed

lemma grows_if [grows_intros]: "grows a \<Longrightarrow> grows b \<Longrightarrow> grows (if c then a else b)"
  by simp

lemma grows_let [grows_intros]: "(\<And>x. grows (f x)) \<Longrightarrow> grows (let x = v in f x)"
  by simp

lemma grows_case_prod [grows_intros]: "(\<And>a b. grows (f a b)) \<Longrightarrow> grows (case p of (a, b) \<Rightarrow> f a b)"
  by (cases p) simp

lemma grows_case_option [grows_intros]:
  "grows a \<Longrightarrow> (\<And>x. grows (f x)) \<Longrightarrow> grows (case v of None \<Rightarrow> a | Some x \<Rightarrow> f x)"
  by (cases v) simp_all

lemmas prim_defs = perform_def tick_def file_bytes_def date_now_def console_warn_def events_emit_def new_NodeSSH_def
  ssh_connect_def ssh_execCommand_def ssh_dispose_def fs_writeFile_def fs_readFile_def
  fs_stat_def fs_unlink_def ssh_putFile_def ssh_getFile_def math_random_toString36_def
  date_toISOString_def ret_def throw_def

lemma grows_prims [grows_intros]:
  "grows date_now" "grows (console_warn s)" "grows (events_emit ev)" "grows new_NodeSSH"
  "grows (ssh_connect cfg)" "grows (ssh_execCommand cmd cwd)" "grows ssh_dispose"
  "grows (fs_writeFile p d)" "grows (fs_readFile p)" "grows (fs_stat p)" "grows (fs_unlink p)"
  "grows (ssh_putFile l r)" "grows (ssh_getFile l r)" "grows math_random_toString36"
  "grows (date_toISOString L n)"
  by (simp_all add: grows_def prim_defs Let_def
      split: option.splits session_state.splits)

lemma keeps_fault_prims [keeps_intros]:
  "keeps fault date_now" "keeps fault (console_warn s)" "keeps fault (events_emit ev)"
  "keeps fault new_NodeSSH"
  "keeps fault (ssh_connect cfg)" "keeps fault (ssh_execCommand cmd cwd)" "keeps fault ssh_dispose"
  "keeps fault (fs_writeFile p d)" "keeps fault (fs_readFile p)" "keeps fault (fs_stat p)"
  "keeps fault (fs_unlink p)"
  "keeps fault (ssh_putFile l r)" "keeps fault (ssh_getFile l r)" "keeps fault math_random_toString36"
  "keeps fault (date_toISOString L n)"
  by (simp_all add: keeps_def prim_defs Let_def
      split: option.splits session_state.splits)

lemma keeps_warnings_prims [keeps_intros]:
  "keeps warnings date_now" "keeps warnings (events_emit ev)"
  "keeps warnings new_NodeSSH"
  "keeps warnings (ssh_connect cfg)" "keeps warnings (ssh_execCommand cmd cwd)" "keeps warnings ssh_dispose"
  "keeps warnings (fs_writeFile p d)" "keeps warnings (fs_readFile p)" "keeps warnings (fs_stat p)"
  "keeps warnings (fs_unlink p)"
  "keeps warnings (ssh_putFile l r)" "keeps warnings (ssh_getFile l r)" "keeps warnings math_random_toString36"
  "keeps warnings (date_toISOString L n)"
  by (simp_all add: keeps_def prim_defs Let_def
      split: option.splits session_state.splits)

lemma grows_executeCommand_try: "grows (executeCommand_try cfg inp st)"
  unfolding executeCommand_try_def by (intro grows_intros)

lemma grows_uploadFile_transfer: "grows (uploadFile_transfer p inp)"
  unfolding uploadFile_transfer_def by (intro grows_intros)

lemma keeps_uploadFile_transfer: "keeps fault (uploadFile_transfer p inp)" "keeps warnings (uploadFile_transfer p inp)"
  unfolding uploadFile_transfer_def by (intro keeps_intros)+

lemma grows_downloadFile_transfer: "grows (downloadFile_transfer L p inp)"
  unfolding downloadFile_transfer_def by (intro grows_intros)

lemma grows_hostMetadata_try: "grows (hostMetadata_try L cfg)"
  unfolding hostMetadata_try_def loadAverage_probe_def memory_probe_def uptimeSeconds_parse_def
  by (intro grows_intros)

section \<open>Failing before any call\<close>

lemma js_or_falsy: "\<not> truthy (js_or u d) \<longleftrightarrow> \<not> truthy u \<and> \<not> truthy d"
  by (simp add: js_or_def)

text \<open>
  Claim C2. In each of the five operations, when the private key of the app is missing
  (or empty), or when neither the request nor the app gives a username, the operation
  fails with the message of the missing setting and the world is as before: no call has
  been made, neither to the network nor to anything else. The four event handlers throw;
  Host Metadata returns the status \<open>failed\<close> with the message.
\<close>

theorem configuration_fault_before_io:
  "(config_missing app (username ec) \<longrightarrow>
      executeCommand_onEvent app ec w = (Inl (Error (config_message app ''input'')), w))
   \<and> (config_missing app (username es) \<longrightarrow>
      executeScript_onEvent app es w = (Inl (Error (config_message app ''input'')), w))
   \<and> (config_missing app (username up) \<longrightarrow>
      uploadFile_onEvent app up w = (Inl (Error (config_message app ''input'')), w))
   \<and> (config_missing app (username dl) \<longrightarrow>
      downloadFile_onEvent L app dl w = (Inl (Error (config_message app ''input'')), w))
   \<and> (config_missing app (username hm) \<longrightarrow>
      hostMetadata_onSync L app hm w = (Inr (failed (config_message app ''block'')), w))"
  by (simp add: config_missing_def config_message_def executeCommand_onEvent_def
      executeScript_onEvent_def uploadFile_onEvent_def downloadFile_onEvent_def
      hostMetadata_onSync_def js_or_falsy throw_def ret_def Let_def)

theorem configuration_fault_before_io_witness:
  "config_missing no_key_app (username example_command)
   \<and> config_missing no_key_app (username example_script)
   \<and> config_missing no_key_app (username example_upload)
   \<and> config_missing no_key_app (username example_download)
   \<and> config_missing no_key_app (username example_metadata)
   \<and> executeCommand_onEvent no_key_app example_command calm_world
       = (Inl (Error ''SSH private key not configured in the app.''), calm_world)
   \<and> executeScript_onEvent no_key_app example_script calm_world
       = (Inl (Error ''SSH private key not configured in the app.''), calm_world)
   \<and> uploadFile_onEvent no_key_app example_upload calm_world
       = (Inl (Error ''SSH private key not configured in the app.''), calm_world)
   \<and> downloadFile_onEvent example_builtins no_key_app example_download calm_world
       = (Inl (Error ''SSH private key not configured in the app.''), calm_world)
   \<and> hostMetadata_onSync example_builtins no_key_app example_metadata calm_world
       = (Inr (failed ''SSH private key not configured in the app.''), calm_world)
   \<and> config_missing no_user_app (username example_command)
   \<and> config_missing no_user_app (username example_metadata)
   \<and> executeCommand_onEvent no_user_app example_command calm_world
       = (Inl (Error ''Username must be specified either in app config or input config.''),
          calm_world)
   \<and> hostMetadata_onSync example_builtins no_user_app example_metadata calm_world
       = (Inr (failed ''Username must be specified either in app config or block config.''),
          calm_world)"
  using configuration_fault_before_io [of no_key_app example_command calm_world example_script
      example_upload example_download example_builtins example_metadata]
    configuration_fault_before_io [of no_user_app example_command calm_world example_script
      example_upload example_download example_builtins example_metadata]
  by (simp add: config_missing_def config_message_def no_key_app_def no_user_app_def truthy_def
      example_command_def example_script_def example_upload_def example_download_def
      example_metadata_def)

section \<open>The username of the connection\<close>

lemma js_or_effective: "js_or u d = effective_username u d"
  by (simp add: js_or_def effective_username_def truthy_def split: option.splits)

lemma starts_connect: "starts (Connect cfg) (ssh_connect cfg)"
  by (simp add: starts_def ssh_connect_def perform_def tick_def split: option.splits)

lemma starts_bindE:
  assumes "starts c m" and "\<And>x. grows (f x)"
  shows "starts c (bindE m f)"
proof -
  have "\<exists>ts. trace (snd (bindE m f w)) = trace w @ c # ts" for w
  proof (cases "m w")
    case (Pair r w1)
    from assms(1) obtain ts where "trace (snd (m w)) = trace w @ c # ts"
      unfolding starts_def by blast
    with Pair have w1: "trace w1 = trace w @ c # ts" by simp
    show ?thesis
    proof (cases r)
      case (Inl e)
      with Pair w1 show ?thesis by (simp add: bindE_def)
    next
      case (Inr x)
      with Pair have eq: "bindE m f w = f x w1" by (simp add: bindE_def)
      from assms(2) [of x] obtain us where "trace (snd (f x w1)) = trace w1 @ us"
        unfolding grows_def by blast
      with eq w1 show ?thesis by simp
    qed
  qed
  then show ?thesis by (simp add: starts_def)
qed

lemma starts_try_finally:
  assumes "starts c m" and "grows fin"
  shows "starts c (try_finally m fin)"
proof -
  have "\<exists>ts. trace (snd (try_finally m fin w)) = trace w @ c # ts" for w
  proof -
    from assms(1) obtain ts where ts: "trace (snd (m w)) = trace w @ c # ts"
      unfolding starts_def by blast
    from assms(2) obtain us where "trace (snd (fin (snd (m w)))) = trace (snd (m w)) @ us"
      unfolding grows_def by blast
    with ts show ?thesis by (simp add: snd_try_finally)
  qed
  then show ?thesis by (simp add: starts_def)
qed

lemma starts_try_catch:
  assumes "starts c m" and "\<And>e. grows (h e)"
  shows "starts c (try_catch m h)"
proof -
  have "\<exists>ts. trace (snd (try_catch m h w)) = trace w @ c # ts" for w
  proof (cases "m w")
    case (Pair r w1)
    from assms(1) obtain ts where "trace (snd (m w)) = trace w @ c # ts"
      unfolding starts_def by blast
    with Pair have w1: "trace w1 = trace w @ c # ts" by simp
    show ?thesis
    proof (cases r)
      case (Inl e)
      with Pair have eq: "try_catch m h w = h e w1" by (simp add: try_catch_def)
      from assms(2) [of e] obtain us where "trace (snd (h e w1)) = trace w1 @ us"
        unfolding grows_def by blast
      with eq w1 show ?thesis by simp
    next
      case (Inr x)
      with Pair w1 show ?thesis by (simp add: try_catch_def)
    qed
  qed
  then show ?thesis by (simp add: starts_def)
qed

lemma starts_calls_made:
  "starts c m \<Longrightarrow> take 1 (calls_made w (snd (m w))) = [c]"
  unfolding starts_def calls_made_def
proof -
  assume "\<forall>w. \<exists>ts. trace (snd (m w)) = trace w @ c # ts"
  then obtain ts where "trace (snd (m w)) = trace w @ c # ts" by blast
  then show "take 1 (drop (length (trace w)) (trace (snd (m w)))) = [c]" by simp
qed

lemma starts_executeCommand_try: "starts (Connect cfg) (executeCommand_try cfg inp st)"
  unfolding executeCommand_try_def
  by (intro starts_bindE starts_connect grows_intros)

lemma starts_executeScript_try: "starts (Connect cfg) (executeScript_try cfg inp i t st)"
  unfolding executeScript_try_def
  by (intro starts_bindE starts_connect grows_intros)

lemma grows_executeScript_finally: "grows (executeScript_finally t)"
  unfolding executeScript_finally_def by (intro grows_intros)

lemma grows_transfer_finally: "grows (transfer_finally t)"
  unfolding transfer_finally_def by (intro grows_intros)

lemma starts_hostMetadata_try: "starts (Connect cfg) (hostMetadata_try L cfg)"
  unfolding hostMetadata_try_def loadAverage_probe_def memory_probe_def uptimeSeconds_parse_def
  by (intro starts_bindE starts_connect grows_intros)

lemma executeCommand_first_call:
  assumes "\<not> config_missing app (username inp)"
  shows "take 1 (calls_made w (snd (executeCommand_onEvent app inp w)))
         = [Connect (connection_of app inp)]"
proof -
  let ?cfg = "connection_of app inp"
  let ?m = "try_finally (executeCommand_try ?cfg inp (clock w)) ssh_dispose"
  from assms have v: "truthy (privateKey app)" "truthy (js_or (username inp) (defaultUsername app))"
    using js_or_falsy by (auto simp: config_missing_def)
  from v have eq: "executeCommand_onEvent app inp w = ?m (w\<lparr>session := Fresh\<rparr>)"
    by (simp add: executeCommand_onEvent_def Let_def bindE_def
        new_NodeSSH_def date_now_def connection_of_def js_or_effective [symmetric])
  have "starts (Connect ?cfg) ?m"
    by (intro starts_try_finally starts_executeCommand_try grows_intros)
  from starts_calls_made [OF this, of "w\<lparr>session := Fresh\<rparr>"] eq show ?thesis
    by (simp add: calls_made_def)
qed

lemma executeScript_first_call:
  assumes "\<not> config_missing app (username inp)"
  shows "take 1 (calls_made w (snd (executeScript_onEvent app inp w)))
         = [Connect (connection_of app inp)]"
proof -
  let ?cfg = "connection_of app inp"
  let ?t = "''/tmp/spacelift_script_'' @ show_int (clock w) @ ''_'' @ substring 2 8 (math_random w) @ ''.sh''"
  let ?m = "try_finally (executeScript_try ?cfg inp (or_default (interpreter inp) ''sh'') ?t (clock w))
              (executeScript_finally ?t)"
  from assms have v: "truthy (privateKey app)" "truthy (js_or (username inp) (defaultUsername app))"
    using js_or_falsy by (auto simp: config_missing_def)
  from v have eq: "executeScript_onEvent app inp w = ?m (w\<lparr>session := Fresh\<rparr>)"
    by (simp add: executeScript_onEvent_def Let_def bindE_def
        new_NodeSSH_def date_now_def connection_of_def js_or_effective [symmetric] math_random_toString36_def)
  have "starts (Connect ?cfg) ?m"
    by (intro starts_try_finally starts_executeScript_try grows_executeScript_finally)
  from starts_calls_made [OF this, of "w\<lparr>session := Fresh\<rparr>"] eq show ?thesis
    by (simp add: calls_made_def)
qed

lemma hostMetadata_first_call:
  assumes "\<not> config_missing app (username inp)"
  shows "take 1 (calls_made w (snd (hostMetadata_onSync L app inp w)))
         = [Connect (connection_of app inp)]"
proof -
  let ?cfg = "connection_of app inp"
  let ?m = "try_finally (try_catch (hostMetadata_try L ?cfg)
               (\<lambda>error. ret (failed (''Failed to connect to host: '' @ message error)))) ssh_dispose"
  from assms have v: "truthy (privateKey app)" "truthy (js_or (username inp) (defaultUsername app))"
    using js_or_falsy by (auto simp: config_missing_def)
  from v have eq: "hostMetadata_onSync L app inp w = ?m (w\<lparr>session := Fresh\<rparr>)"
    by (simp add: hostMetadata_onSync_def Let_def bindE_def
        new_NodeSSH_def connection_of_def js_or_effective [symmetric])
  have "starts (Connect ?cfg) ?m"
    by (intro starts_try_finally starts_try_catch starts_hostMetadata_try grows_intros)
  from starts_calls_made [OF this, of "w\<lparr>session := Fresh\<rparr>"] eq show ?thesis
    by (simp add: calls_made_def)
qed


lemma uploadFile_onEvent_valid:
  assumes "\<not> config_missing app (username inp)"
  shows "uploadFile_onEvent app inp w =
     (case uploadFile_try (connection_of app inp) inp (w\<lparr>session := Fresh\<rparr>) of
        ((r, t), w1) \<Rightarrow>
          (case transfer_finally t w1 of (Inl e, w2) \<Rightarrow> (Inl e, w2) | (Inr _, w2) \<Rightarrow> (r, w2)))"
proof -
  from assms have v: "truthy (privateKey app)" "truthy (js_or (username inp) (defaultUsername app))"
    using js_or_falsy by (auto simp: config_missing_def)
  then show ?thesis
    by (simp add: uploadFile_onEvent_def Let_def new_NodeSSH_def connection_of_def
        js_or_effective [symmetric])
qed

lemma downloadFile_onEvent_valid:
  assumes "\<not> config_missing app (username inp)"
  shows "downloadFile_onEvent L app inp w =
     (case downloadFile_try L (connection_of app inp) inp (w\<lparr>session := Fresh\<rparr>) of
        ((r, t), w1) \<Rightarrow>
          (case transfer_finally t w1 of (Inl e, w2) \<Rightarrow> (Inl e, w2) | (Inr _, w2) \<Rightarrow> (r, w2)))"
proof -
  from assms have v: "truthy (privateKey app)" "truthy (js_or (username inp) (defaultUsername app))"
    using js_or_falsy by (auto simp: config_missing_def)
  then show ?thesis
    by (simp add: downloadFile_onEvent_def Let_def new_NodeSSH_def connection_of_def
        js_or_effective [symmetric])
qed

lemma uploadFile_try_starts:
  "\<exists>ts. trace (snd (uploadFile_try cfg inp w)) = trace w @ Connect cfg # ts"
proof (cases "ssh_connect cfg w")
  case (Pair r w1)
  from starts_connect [of cfg] obtain ts where "trace (snd (ssh_connect cfg w)) = trace w @ Connect cfg # ts"
    unfolding starts_def by blast
  with Pair have w1: "trace w1 = trace w @ Connect cfg # ts" by simp
  show ?thesis
  proof (cases r)
    case (Inl e)
    with Pair w1 show ?thesis by (simp add: uploadFile_try_def)
  next
    case (Inr x)
    define p where "p = path_join (os_tmpdir w1)
                (''ssh-upload-'' @ show_int (clock w1) @ ''-'' @ substr 2 9 (math_random w1))"
    obtain r2 w2 where U: "uploadFile_transfer p inp w1 = (r2, w2)"
      by (metis prod.exhaust)
    from grows_uploadFile_transfer [of p inp] obtain us
      where "trace (snd (uploadFile_transfer p inp w1)) = trace w1 @ us"
      unfolding grows_def by blast
    with U w1 have w2: "trace w2 = trace w @ Connect cfg # ts @ us" by simp
    from Pair Inr U have "uploadFile_try cfg inp w = ((r2, Some p), w2)"
      by (simp add: uploadFile_try_def Let_def p_def)
    with w2 show ?thesis by simp
  qed
qed

lemma downloadFile_try_starts:
  "\<exists>ts. trace (snd (downloadFile_try L cfg inp w)) = trace w @ Connect cfg # ts"
proof (cases "ssh_connect cfg w")
  case (Pair r w1)
  from starts_connect [of cfg] obtain ts where "trace (snd (ssh_connect cfg w)) = trace w @ Connect cfg # ts"
    unfolding starts_def by blast
  with Pair have w1: "trace w1 = trace w @ Connect cfg # ts" by simp
  show ?thesis
  proof (cases r)
    case (Inl e)
    with Pair w1 show ?thesis by (simp add: downloadFile_try_def)
  next
    case (Inr x)
    define p where "p = path_join (os_tmpdir w1)
                (''ssh-download-'' @ show_int (clock w1) @ ''-'' @ substr 2 9 (math_random w1))"
    obtain r2 w2 where U: "downloadFile_transfer L p inp w1 = (r2, w2)"
      by (metis prod.exhaust)
    from grows_downloadFile_transfer [of L p inp] obtain us
      where "trace (snd (downloadFile_transfer L p inp w1)) = trace w1 @ us"
      unfolding grows_def by blast
    with U w1 have w2: "trace w2 = trace w @ Connect cfg # ts @ us" by simp
    from Pair Inr U have "downloadFile_try L cfg inp w = ((r2, Some p), w2)"
      by (simp add: downloadFile_try_def Let_def p_def)
    with w2 show ?thesis by simp
  qed
qed

lemma snd_finally_case:
  "snd (case fin w1 of (Inl e, w2) \<Rightarrow> (Inl e, w2) | (Inr u, w2) \<Rightarrow> (r, w2)) = snd (fin w1)"
  by (simp split: prod.splits sum.splits)

lemma uploadFile_first_call:
  assumes "\<not> config_missing app (username inp)"
  shows "take 1 (calls_made w (snd (uploadFile_onEvent app inp w)))
         = [Connect (connection_of app inp)]"
proof -
  let ?cfg = "connection_of app inp"
  let ?w0 = "w\<lparr>session := Fresh\<rparr>"
  obtain r t w1 where T: "uploadFile_try ?cfg inp ?w0 = ((r, t), w1)"
    by (metis prod.exhaust)
  from uploadFile_try_starts [of ?cfg inp ?w0] T obtain ts
    where w1: "trace w1 = trace w @ Connect ?cfg # ts" by auto
  from grows_transfer_finally [of t] obtain us
    where "trace (snd (transfer_finally t w1)) = trace w1 @ us"
    unfolding grows_def by blast
  with w1 T show ?thesis
    by (simp add: uploadFile_onEvent_valid [OF assms] snd_finally_case calls_made_def)
qed

lemma downloadFile_first_call:
  assumes "\<not> config_missing app (username inp)"
  shows "take 1 (calls_made w (snd (downloadFile_onEvent L app inp w)))
         = [Connect (connection_of app inp)]"
proof -
  let ?cfg = "connection_of app inp"
  let ?w0 = "w\<lparr>session := Fresh\<rparr>"
  obtain r t w1 where T: "downloadFile_try L ?cfg inp ?w0 = ((r, t), w1)"
    by (metis prod.exhaust)
  from downloadFile_try_starts [of L ?cfg inp ?w0] T obtain ts
    where w1: "trace w1 = trace w @ Connect ?cfg # ts" by auto
  from grows_transfer_finally [of t] obtain us
    where "trace (snd (transfer_finally t w1)) = trace w1 @ us"
    unfolding grows_def by blast
  with w1 T show ?thesis
    by (simp add: downloadFile_onEvent_valid [OF assms] snd_finally_case calls_made_def)
qed

text \<open>
  Claim C10. In each of the five operations with a usable configuration, the first call
  made is the connection, and its username is the per-call username when that is a
  non-empty string and the default of the app otherwise: an empty per-call username does
  not override the default, an absent one neither, and a non-empty one always does.
\<close>

theorem effective_username_truthiness:
  "(\<not> config_missing app (username ec) \<longrightarrow>
      take 1 (calls_made w (snd (executeCommand_onEvent app ec w)))
        = [Connect (connection_of app ec)])
   \<and> (\<not> config_missing app (username es) \<longrightarrow>
      take 1 (calls_made w (snd (executeScript_onEvent app es w)))
        = [Connect (connection_of app es)])
   \<and> (\<not> config_missing app (username up) \<longrightarrow>
      take 1 (calls_made w (snd (uploadFile_onEvent app up w)))
        = [Connect (connection_of app up)])
   \<and> (\<not> config_missing app (username dl) \<longrightarrow>
      take 1 (calls_made w (snd (downloadFile_onEvent L app dl w)))
        = [Connect (connection_of app dl)])
   \<and> (\<not> config_missing app (username hm) \<longrightarrow>
      take 1 (calls_made w (snd (hostMetadata_onSync L app hm w)))
        = [Connect (connection_of app hm)])
   \<and> effective_username (Some []) d = d
   \<and> effective_username None d = d
   \<and> (s \<noteq> [] \<longrightarrow> effective_username (Some s) d = Some s)"
  using executeCommand_first_call [of app ec w] executeScript_first_call [of app es w]
    uploadFile_first_call [of app up w] downloadFile_first_call [of app dl w L]
    hostMetadata_first_call [of app hm w L]
  by (simp add: effective_username_def)

theorem effective_username_truthiness_witness:
  "\<not> config_missing example_app (username (example_command\<lparr>username := Some []\<rparr>))
   \<and> take 1 (calls_made calm_world
         (snd (executeCommand_onEvent example_app (example_command\<lparr>username := Some []\<rparr>)
                 calm_world)))
       = [Connect \<lparr>connect_host = ''10.0.0.5'', connect_username = Some ''deploy'',
                   connect_port = 22, connect_privateKey = Some ''KEY'',
                   connect_hostVerifier = None\<rparr>]
   \<and> take 1 (calls_made calm_world
         (snd (executeScript_onEvent example_app (example_script\<lparr>username := Some []\<rparr>)
                 calm_world)))
       = [Connect \<lparr>connect_host = ''10.0.0.5'', connect_username = Some ''deploy'',
                   connect_port = 22, connect_privateKey = Some ''KEY'',
                   connect_hostVerifier = None\<rparr>]
   \<and> take 1 (calls_made calm_world
         (snd (uploadFile_onEvent example_app (example_upload\<lparr>username := Some ''root''\<rparr>)
                 calm_world)))
       = [Connect \<lparr>connect_host = ''10.0.0.5'', connect_username = Some ''root'',
                   connect_port = 22, connect_privateKey = Some ''KEY'',
                   connect_hostVerifier = None\<rparr>]
   \<and> take 1 (calls_made calm_world
         (snd (downloadFile_onEvent example_builtins example_app example_download calm_world)))
       = [Connect \<lparr>connect_host = ''10.0.0.5'', connect_username = Some ''deploy'',
                   connect_port = 22, connect_privateKey = Some ''KEY'',
                   connect_hostVerifier = None\<rparr>]
   \<and> take 1 (calls_made calm_world
         (snd (hostMetadata_onSync example_builtins example_app
                 (example_metadata\<lparr>username := Some []\<rparr>) calm_world)))
       = [Connect \<lparr>connect_host = ''10.0.0.5'', connect_username = Some ''deploy'',
                   connect_port = 22, connect_privateKey = Some ''KEY'',
                   connect_hostVerifier = None\<rparr>]
   \<and> ''root'' \<noteq> []"
  using effective_username_truthiness [of example_app "example_command\<lparr>username := Some []\<rparr>"
      calm_world "example_script\<lparr>username := Some []\<rparr>"
      "example_upload\<lparr>username := Some ''root''\<rparr>" example_download example_builtins
      "example_metadata\<lparr>username := Some []\<rparr>" "Some ''deploy''" "''root''"]
  by (simp add: config_missing_def example_app_def example_command_def example_script_def
      example_upload_def example_download_def example_metadata_def truthy_def
      connection_of_def effective_username_def)

section \<open>Release of the session and of the staging file\<close>

lemma fst_try_finally: "never_throws fin \<Longrightarrow> fst (try_finally m fin w) = fst (m w)"
proof -
  assume "never_throws fin"
  then have "fst (fin (snd (m w))) = Inr ()" by (simp add: never_throws_def)
  then show ?thesis
    by (cases "m w"; cases "fin (snd (m w))") (auto simp: try_finally_def)
qed

lemma never_throws_dispose: "never_throws ssh_dispose"
  by (simp add: never_throws_def ssh_dispose_def)

lemma never_throws_executeScript_finally: "never_throws (executeScript_finally t)"
  by (simp add: never_throws_def executeScript_finally_def bindE_def try_catch_def
      ssh_dispose_def console_warn_def ret_def split: prod.splits sum.splits)

lemma never_throws_transfer_finally: "never_throws (transfer_finally t)"
  by (simp add: never_throws_def transfer_finally_def bindE_def try_catch_def
      ssh_dispose_def ret_def split: prod.splits sum.splits)

lemma session_dispose: "session (snd (ssh_dispose w)) = Disposed"
  by (simp add: ssh_dispose_def)

lemma session_executeScript_finally: "session (snd (executeScript_finally t w)) = Disposed"
  by (simp add: executeScript_finally_def bindE_def try_catch_def
      ssh_dispose_def console_warn_def ret_def split: prod.splits sum.splits)

lemma session_transfer_finally: "session (snd (transfer_finally t w)) = Disposed"
  by (simp add: transfer_finally_def bindE_def try_catch_def ssh_dispose_def ret_def
      fs_unlink_def perform_def tick_def split: prod.splits sum.splits option.splits)

lemma upload_unchanged_when_missing:
  "config_missing app (username inp) \<Longrightarrow> snd (uploadFile_onEvent app inp w) = w"
  by (simp add: config_missing_def uploadFile_onEvent_def js_or_falsy throw_def Let_def)

lemma download_unchanged_when_missing:
  "config_missing app (username inp) \<Longrightarrow> snd (downloadFile_onEvent L app inp w) = w"
  by (simp add: config_missing_def downloadFile_onEvent_def js_or_falsy throw_def Let_def)

lemma valid_config:
  assumes "\<not> config_missing app (username inp)"
  shows "truthy (privateKey app)" and "truthy (js_or (username inp) (defaultUsername app))"
  using assms js_or_falsy by (auto simp: config_missing_def)

lemma executeCommand_onEvent_valid:
  assumes "\<not> config_missing app (username inp)"
  shows "executeCommand_onEvent app inp w =
     try_finally (executeCommand_try (connection_of app inp) inp (clock w)) ssh_dispose
       (w\<lparr>session := Fresh\<rparr>)"
  using valid_config [OF assms]
  by (simp add: executeCommand_onEvent_def Let_def bindE_def new_NodeSSH_def date_now_def
      connection_of_def js_or_effective [symmetric])

lemma executeScript_onEvent_valid:
  assumes "\<not> config_missing app (username inp)"
  shows "executeScript_onEvent app inp w =
     try_finally
       (executeScript_try (connection_of app inp) inp (or_default (interpreter inp) ''sh'')
          (script_temp_path w) (clock w))
       (executeScript_finally (script_temp_path w)) (w\<lparr>session := Fresh\<rparr>)"
  using valid_config [OF assms]
  by (simp add: executeScript_onEvent_def Let_def bindE_def new_NodeSSH_def date_now_def
      connection_of_def js_or_effective [symmetric] math_random_toString36_def
      script_temp_path_def)

lemma hostMetadata_onSync_valid:
  assumes "\<not> config_missing app (username inp)"
  shows "hostMetadata_onSync L app inp w =
     try_finally
       (try_catch (hostMetadata_try L (connection_of app inp))
          (\<lambda>error. ret (failed (''Failed to connect to host: '' @ message error))))
       ssh_dispose (w\<lparr>session := Fresh\<rparr>)"
  using valid_config [OF assms]
  by (simp add: hostMetadata_onSync_def Let_def bindE_def new_NodeSSH_def
      connection_of_def js_or_effective [symmetric])

lemma fst_finally_case:
  "fst (fin w1) = Inr () \<Longrightarrow>
   fst (case fin w1 of (Inl e, w2) \<Rightarrow> (Inl e, w2) | (Inr u, w2) \<Rightarrow> (r, w2)) = r"
  by (cases "fin w1") auto

lemma sessions_released:
  assumes "\<not> config_missing app (username inp)"
  shows "session (snd (executeCommand_onEvent app inp w)) = Disposed"
  by (simp add: executeCommand_onEvent_valid [OF assms] snd_try_finally session_dispose)

lemma script_session_released:
  assumes "\<not> config_missing app (username inp)"
  shows "session (snd (executeScript_onEvent app inp w)) = Disposed"
  by (simp add: executeScript_onEvent_valid [OF assms] snd_try_finally
      session_executeScript_finally)

lemma upload_session_released:
  assumes "\<not> config_missing app (username inp)"
  shows "session (snd (uploadFile_onEvent app inp w)) = Disposed"
  by (simp add: uploadFile_onEvent_valid [OF assms] snd_finally_case session_transfer_finally
      split: prod.splits)

lemma download_session_released:
  assumes "\<not> config_missing app (username inp)"
  shows "session (snd (downloadFile_onEvent L app inp w)) = Disposed"
  by (simp add: downloadFile_onEvent_valid [OF assms] snd_finally_case session_transfer_finally
      split: prod.splits)

lemma metadata_session_released:
  assumes "\<not> config_missing app (username inp)"
  shows "session (snd (hostMetadata_onSync L app inp w)) = Disposed"
  by (simp add: hostMetadata_onSync_valid [OF assms] snd_try_finally session_dispose)

lemma command_completion:
  assumes "\<not> config_missing app (username inp)"
  shows "fst (executeCommand_onEvent app inp w) =
         fst (executeCommand_try (connection_of app inp) inp (clock w) (w\<lparr>session := Fresh\<rparr>))"
  by (simp add: executeCommand_onEvent_valid [OF assms] fst_try_finally never_throws_dispose)

lemma script_completion:
  assumes "\<not> config_missing app (username inp)"
  shows "fst (executeScript_onEvent app inp w) =
         fst (executeScript_try (connection_of app inp) inp (or_default (interpreter inp) ''sh'')
                (script_temp_path w) (clock w) (w\<lparr>session := Fresh\<rparr>))"
  by (simp add: executeScript_onEvent_valid [OF assms] fst_try_finally
      never_throws_executeScript_finally)

lemma upload_completion:
  assumes "\<not> config_missing app (username inp)"
  shows "fst (uploadFile_onEvent app inp w) =
         fst (fst (uploadFile_try (connection_of app inp) inp (w\<lparr>session := Fresh\<rparr>)))"
proof -
  obtain r t w1 where T: "uploadFile_try (connection_of app inp) inp (w\<lparr>session := Fresh\<rparr>) = ((r, t), w1)"
    by (metis prod.exhaust)
  have "fst (transfer_finally t w1) = Inr ()"
    using never_throws_transfer_finally by (simp add: never_throws_def)
  with T show ?thesis
    by (simp add: uploadFile_onEvent_valid [OF assms] fst_finally_case)
qed

lemma download_completion:
  assumes "\<not> config_missing app (username inp)"
  shows "fst (downloadFile_onEvent L app inp w) =
         fst (fst (downloadFile_try L (connection_of app inp) inp (w\<lparr>session := Fresh\<rparr>)))"
proof -
  obtain r t w1 where T: "downloadFile_try L (connection_of app inp) inp (w\<lparr>session := Fresh\<rparr>) = ((r, t), w1)"
    by (metis prod.exhaust)
  have "fst (transfer_finally t w1) = Inr ()"
    using never_throws_transfer_finally by (simp add: never_throws_def)
  with T show ?thesis
    by (simp add: downloadFile_onEvent_valid [OF assms] fst_finally_case)
qed

lemma metadata_completion:
  assumes "\<not> config_missing app (username inp)"
  shows "fst (hostMetadata_onSync L app inp w) =
         fst (try_catch (hostMetadata_try L (connection_of app inp))
                (\<lambda>error. ret (failed (''Failed to connect to host: '' @ message error)))
                (w\<lparr>session := Fresh\<rparr>))"
  by (simp add: hostMetadata_onSync_valid [OF assms] fst_try_finally never_throws_dispose)

lemma ssh_connect_ok:
  "fault w (Connect cfg) = None \<Longrightarrow>
   ssh_connect cfg w =
     (Inr (), w\<lparr>trace := trace w @ [Connect cfg],
               clock := clock w + int (latency w (Connect cfg)),
               session := Connected (connect_host cfg) (connect_port cfg)\<rparr>)"
  by (simp add: ssh_connect_def perform_def tick_def)

lemma ssh_connect_fails:
  "fault w (Connect cfg) = Some m \<Longrightarrow>
   ssh_connect cfg w =
     (Inl (Error m), w\<lparr>trace := trace w @ [Connect cfg],
                       clock := clock w + int (latency w (Connect cfg))\<rparr>)"
  by (simp add: ssh_connect_def perform_def tick_def)

lemma keeps_session_prims [keeps_intros]:
  "keeps session date_now" "keeps session (console_warn s)" "keeps session (events_emit ev)"
  "keeps session (ssh_execCommand cmd cwd)"
  "keeps session (fs_writeFile p d)" "keeps session (fs_readFile p)" "keeps session (fs_stat p)"
  "keeps session (fs_unlink p)"
  "keeps session (ssh_putFile l r)" "keeps session (ssh_getFile l r)"
  "keeps session math_random_toString36" "keeps session (date_toISOString L n)"
  by (simp_all add: keeps_def prim_defs Let_def
      split: option.splits session_state.splits)

lemma keeps_local_files_prims [keeps_intros]:
  "keeps local_files date_now" "keeps local_files (console_warn s)"
  "keeps local_files (events_emit ev)" "keeps local_files new_NodeSSH"
  "keeps local_files (ssh_connect cfg)" "keeps local_files (ssh_execCommand cmd cwd)"
  "keeps local_files ssh_dispose"
  by (simp_all add: keeps_def prim_defs Let_def
      split: option.splits session_state.splits)

lemma keeps_downloadFile_transfer:
  "keeps fault (downloadFile_transfer L p inp)" "keeps warnings (downloadFile_transfer L p inp)"
  unfolding downloadFile_transfer_def by (intro keeps_intros)+

lemma uploadFile_try_keeps:
  assumes "keeps g (ssh_connect cfg)" and "\<And>p. keeps g (uploadFile_transfer p inp)"
  shows "g (snd (uploadFile_try cfg inp w)) = g w"
proof (cases "ssh_connect cfg w")
  case (Pair r w1)
  with assms(1) have w1: "g w1 = g w" by (metis keeps_def snd_conv)
  show ?thesis
  proof (cases r)
    case (Inl e)
    with Pair w1 show ?thesis by (simp add: uploadFile_try_def)
  next
    case (Inr x)
    define p where "p = path_join (os_tmpdir w1)
                (''ssh-upload-'' @ show_int (clock w1) @ ''-'' @ substr 2 9 (math_random w1))"
    obtain r2 w2 where U: "uploadFile_transfer p inp w1 = (r2, w2)"
      by (metis prod.exhaust)
    with assms(2) [of p] w1 have "g w2 = g w" by (metis keeps_def snd_conv)
    moreover from Pair Inr U have "uploadFile_try cfg inp w = ((r2, Some p), w2)"
      by (simp add: uploadFile_try_def Let_def p_def)
    ultimately show ?thesis by simp
  qed
qed

lemma downloadFile_try_keeps:
  assumes "keeps g (ssh_connect cfg)" and "\<And>p. keeps g (downloadFile_transfer L p inp)"
  shows "g (snd (downloadFile_try L cfg inp w)) = g w"
proof (cases "ssh_connect cfg w")
  case (Pair r w1)
  with assms(1) have w1: "g w1 = g w" by (metis keeps_def snd_conv)
  show ?thesis
  proof (cases r)
    case (Inl e)
    with Pair w1 show ?thesis by (simp add: downloadFile_try_def)
  next
    case (Inr x)
    define p where "p = path_join (os_tmpdir w1)
                (''ssh-download-'' @ show_int (clock w1) @ ''-'' @ substr 2 9 (math_random w1))"
    obtain r2 w2 where U: "downloadFile_transfer L p inp w1 = (r2, w2)"
      by (metis prod.exhaust)
    with assms(2) [of p] w1 have "g w2 = g w" by (metis keeps_def snd_conv)
    moreover from Pair Inr U have "downloadFile_try L cfg inp w = ((r2, Some p), w2)"
      by (simp add: downloadFile_try_def Let_def p_def)
    ultimately show ?thesis by simp
  qed
qed

lemma keeps_warnings_transfer_finally: "keeps warnings (transfer_finally t)"
  unfolding transfer_finally_def by (intro keeps_intros)

lemma upload_warnings: "warnings (snd (uploadFile_onEvent app inp w)) = warnings w"
proof (cases "config_missing app (username inp)")
  case True
  then show ?thesis using upload_unchanged_when_missing by simp
next
  case False
  obtain r t w1 where T: "uploadFile_try (connection_of app inp) inp (w\<lparr>session := Fresh\<rparr>) = ((r, t), w1)"
    by (metis prod.exhaust)
  have "warnings (snd (uploadFile_try (connection_of app inp) inp (w\<lparr>session := Fresh\<rparr>)))
        = warnings (w\<lparr>session := Fresh\<rparr>)"
    by (intro uploadFile_try_keeps keeps_intros keeps_uploadFile_transfer)
  with T have "warnings w1 = warnings w" by simp
  moreover have "warnings (snd (transfer_finally t w1)) = warnings w1"
    using keeps_warnings_transfer_finally by (simp add: keeps_def)
  ultimately show ?thesis
    using T by (simp add: uploadFile_onEvent_valid [OF False] snd_finally_case)
qed

lemma download_warnings: "warnings (snd (downloadFile_onEvent L app inp w)) = warnings w"
proof (cases "config_missing app (username inp)")
  case True
  then show ?thesis using download_unchanged_when_missing by simp
next
  case False
  obtain r t w1 where T: "downloadFile_try L (connection_of app inp) inp (w\<lparr>session := Fresh\<rparr>) = ((r, t), w1)"
    by (metis prod.exhaust)
  have "warnings (snd (downloadFile_try L (connection_of app inp) inp (w\<lparr>session := Fresh\<rparr>)))
        = warnings (w\<lparr>session := Fresh\<rparr>)"
    by (intro downloadFile_try_keeps keeps_intros keeps_downloadFile_transfer)
  with T have "warnings w1 = warnings w" by simp
  moreover have "warnings (snd (transfer_finally t w1)) = warnings w1"
    using keeps_warnings_transfer_finally by (simp add: keeps_def)
  ultimately show ?thesis
    using T by (simp add: downloadFile_onEvent_valid [OF False] snd_finally_case)
qed

lemma path_join_nonempty: "path_join d n \<noteq> []"
  by (simp add: path_join_def)

lemma transfer_finally_unlinks:
  assumes "p \<noteq> []"
  shows "last (trace (snd (transfer_finally (Some p) w))) = Unlink p"
    and "fault w (Unlink p) = None \<Longrightarrow> local_files (snd (transfer_finally (Some p) w)) p = None"
  using assms
  by (simp_all add: transfer_finally_def bindE_def ssh_dispose_def truthy_def or_default_def
      try_catch_def fs_unlink_def perform_def tick_def ret_def split: option.splits)

lemma transfer_finally_nothing:
  "local_files (snd (transfer_finally None w)) = local_files w"
  "last (trace (snd (transfer_finally None w))) = Dispose"
  by (simp_all add: transfer_finally_def bindE_def ssh_dispose_def truthy_def ret_def)

lemma uploadFile_try_connected:
  assumes "fault w (Connect cfg) = None"
  shows "snd (fst (uploadFile_try cfg inp w)) = Some (upload_temp_path w cfg)"
    and "fault (snd (uploadFile_try cfg inp w)) = fault w"
proof -
  let ?w1 = "w\<lparr>trace := trace w @ [Connect cfg],
               clock := clock w + int (latency w (Connect cfg)),
               session := Connected (connect_host cfg) (connect_port cfg)\<rparr>"
  show "snd (fst (uploadFile_try cfg inp w)) = Some (upload_temp_path w cfg)"
    by (simp add: uploadFile_try_def ssh_connect_ok [OF assms] Let_def upload_temp_path_def
        split: prod.splits)
  show "fault (snd (uploadFile_try cfg inp w)) = fault w"
    by (intro uploadFile_try_keeps keeps_intros keeps_uploadFile_transfer)
qed

lemma uploadFile_try_refused:
  assumes "fault w (Connect cfg) = Some m"
  shows "snd (fst (uploadFile_try cfg inp w)) = None"
    and "local_files (snd (uploadFile_try cfg inp w)) = local_files w"
  by (simp_all add: uploadFile_try_def ssh_connect_fails [OF assms])

lemma downloadFile_try_connected:
  assumes "fault w (Connect cfg) = None"
  shows "snd (fst (downloadFile_try L cfg inp w)) = Some (download_temp_path w cfg)"
    and "fault (snd (downloadFile_try L cfg inp w)) = fault w"
proof -
  show "snd (fst (downloadFile_try L cfg inp w)) = Some (download_temp_path w cfg)"
    by (simp add: downloadFile_try_def ssh_connect_ok [OF assms] Let_def download_temp_path_def
        split: prod.splits)
  show "fault (snd (downloadFile_try L cfg inp w)) = fault w"
    by (intro downloadFile_try_keeps keeps_intros keeps_downloadFile_transfer)
qed

lemma downloadFile_try_refused:
  assumes "fault w (Connect cfg) = Some m"
  shows "snd (fst (downloadFile_try L cfg inp w)) = None"
    and "local_files (snd (downloadFile_try L cfg inp w)) = local_files w"
  by (simp_all add: downloadFile_try_def ssh_connect_fails [OF assms])

lemma upload_staging_removed:
  assumes "\<not> config_missing app (username inp)"
    and "fault w (Connect (connection_of app inp)) = None"
  shows "last (trace (snd (uploadFile_onEvent app inp w)))
           = Unlink (upload_temp_path w (connection_of app inp))"
    and "fault w (Unlink (upload_temp_path w (connection_of app inp))) = None \<Longrightarrow>
         local_files (snd (uploadFile_onEvent app inp w))
           (upload_temp_path w (connection_of app inp)) = None"
proof -
  let ?cfg = "connection_of app inp"
  let ?w0 = "w\<lparr>session := Fresh\<rparr>"
  let ?p = "upload_temp_path w ?cfg"
  obtain r t w1 where T: "uploadFile_try ?cfg inp ?w0 = ((r, t), w1)"
    by (metis prod.exhaust)
  from assms(2) have c: "fault ?w0 (Connect ?cfg) = None" by simp
  from uploadFile_try_connected [OF c, of inp] T
  have t: "t = Some ?p" and f: "fault w1 = fault w"
    by (simp_all add: upload_temp_path_def)
  have ne: "?p \<noteq> []" by (simp add: upload_temp_path_def path_join_nonempty)
  have eq: "snd (uploadFile_onEvent app inp w) = snd (transfer_finally (Some ?p) w1)"
    using T t by (simp add: uploadFile_onEvent_valid [OF assms(1)] snd_finally_case)
  show "last (trace (snd (uploadFile_onEvent app inp w))) = Unlink ?p"
    using transfer_finally_unlinks(1) [OF ne] eq by simp
  show "local_files (snd (uploadFile_onEvent app inp w)) ?p = None"
    if "fault w (Unlink ?p) = None"
    using transfer_finally_unlinks(2) [OF ne, of w1] eq f that by simp
qed

lemma upload_nothing_staged:
  assumes "\<not> config_missing app (username inp)"
    and "fault w (Connect (connection_of app inp)) = Some m"
  shows "local_files (snd (uploadFile_onEvent app inp w)) = local_files w"
proof -
  let ?cfg = "connection_of app inp"
  let ?w0 = "w\<lparr>session := Fresh\<rparr>"
  obtain r t w1 where T: "uploadFile_try ?cfg inp ?w0 = ((r, t), w1)"
    by (metis prod.exhaust)
  from assms(2) have c: "fault ?w0 (Connect ?cfg) = Some m" by simp
  from uploadFile_try_refused [OF c, of inp] T
  have "t = None" and "local_files w1 = local_files w" by simp_all
  then show ?thesis
    using T by (simp add: uploadFile_onEvent_valid [OF assms(1)] snd_finally_case
        transfer_finally_nothing)
qed

lemma download_staging_removed:
  assumes "\<not> config_missing app (username inp)"
    and "fault w (Connect (connection_of app inp)) = None"
  shows "last (trace (snd (downloadFile_onEvent L app inp w)))
           = Unlink (download_temp_path w (connection_of app inp))"
    and "fault w (Unlink (download_temp_path w (connection_of app inp))) = None \<Longrightarrow>
         local_files (snd (downloadFile_onEvent L app inp w))
           (download_temp_path w (connection_of app inp)) = None"
proof -
  let ?cfg = "connection_of app inp"
  let ?w0 = "w\<lparr>session := Fresh\<rparr>"
  let ?p = "download_temp_path w ?cfg"
  obtain r t w1 where T: "downloadFile_try L ?cfg inp ?w0 = ((r, t), w1)"
    by (metis prod.exhaust)
  from assms(2) have c: "fault ?w0 (Connect ?cfg) = None" by simp
  from downloadFile_try_connected [OF c, of L inp] T
  have t: "t = Some ?p" and f: "fault w1 = fault w"
    by (simp_all add: download_temp_path_def)
  have ne: "?p \<noteq> []" by (simp add: download_temp_path_def path_join_nonempty)
  have eq: "snd (downloadFile_onEvent L app inp w) = snd (transfer_finally (Some ?p) w1)"
    using T t by (simp add: downloadFile_onEvent_valid [OF assms(1)] snd_finally_case)
  show "last (trace (snd (downloadFile_onEvent L app inp w))) = Unlink ?p"
    using transfer_finally_unlinks(1) [OF ne] eq by simp
  show "local_files (snd (downloadFile_onEvent L app inp w)) ?p = None"
    if "fault w (Unlink ?p) = None"
    using transfer_finally_unlinks(2) [OF ne, of w1] eq f that by simp
qed

lemma download_nothing_staged:
  assumes "\<not> config_missing app (username inp)"
    and "fault w (Connect (connection_of app inp)) = Some m"
  shows "local_files (snd (downloadFile_onEvent L app inp w)) = local_files w"
proof -
  let ?cfg = "connection_of app inp"
  let ?w0 = "w\<lparr>session := Fresh\<rparr>"
  obtain r t w1 where T: "downloadFile_try L ?cfg inp ?w0 = ((r, t), w1)"
    by (metis prod.exhaust)
  from assms(2) have c: "fault ?w0 (Connect ?cfg) = Some m" by simp
  from downloadFile_try_refused [OF c, of L inp] T
  have "t = None" and "local_files w1 = local_files w" by simp_all
  then show ?thesis
    using T by (simp add: downloadFile_onEvent_valid [OF assms(1)] snd_finally_case
        transfer_finally_nothing)
qed

lemma keeps_at: "keeps g m \<Longrightarrow> g (snd (m w)) = g w"
  by (simp add: keeps_def)

lemma bindE_connect_ok:
  "fault w (Connect cfg) = None \<Longrightarrow>
   bindE (ssh_connect cfg) f w =
     f () (w\<lparr>trace := trace w @ [Connect cfg],
              clock := clock w + int (latency w (Connect cfg)),
              session := Connected (connect_host cfg) (connect_port cfg)\<rparr>)"
  by (simp add: bindE_def ssh_connect_ok)

lemma bindE_connect_fails:
  "fault w (Connect cfg) = Some m \<Longrightarrow>
   bindE (ssh_connect cfg) f w =
     (Inl (Error m), w\<lparr>trace := trace w @ [Connect cfg],
                       clock := clock w + int (latency w (Connect cfg))\<rparr>)"
  by (simp add: bindE_def ssh_connect_fails)

lemma keeps_executeScript_try:
  "keeps fault (executeScript_try cfg inp i t st)"
  "keeps warnings (executeScript_try cfg inp i t st)"
  unfolding executeScript_try_def by (intro keeps_intros)+

lemma executeScript_try_connected:
  assumes "fault w (Connect cfg) = None"
  shows "session (snd (executeScript_try cfg inp i t st w))
         = Connected (connect_host cfg) (connect_port cfg)"
  unfolding executeScript_try_def
  apply (subst bindE_connect_ok [OF assms])
  apply (subst keeps_at [where g = session])
   apply (intro keeps_intros)
  apply simp
  done

lemma executeScript_try_refused:
  assumes "fault w (Connect cfg) = Some m"
  shows "session (snd (executeScript_try cfg inp i t st w)) = session w"
    and "unconnected (snd (executeScript_try cfg inp i t st w)) = unconnected w"
  unfolding executeScript_try_def
  by (simp_all add: bindE_connect_fails [OF assms])

lemma executeScript_finally_warns:
  "session w = Connected h p \<Longrightarrow>
   fault w (ExecCommand (''rm -f '' @ dq @ t @ dq) None) = Some m \<Longrightarrow>
   warnings (snd (executeScript_finally t w))
     = warnings w @ [''Failed to clean up temporary script file '' @ t @ '': '' @ m]"
  "session w = Fresh \<Longrightarrow>
   warnings (snd (executeScript_finally t w))
     = warnings w @ [''Failed to clean up temporary script file '' @ t @ '': ''
                     @ unconnected w (ExecCommand (''rm -f '' @ dq @ t @ dq) None)]"
  by (simp_all add: executeScript_finally_def bindE_def try_catch_def ssh_execCommand_def
      perform_def tick_def console_warn_def ssh_dispose_def)

lemma script_cleanup_recorded:
  assumes "\<not> config_missing app (username inp)"
  shows "fault w (Connect (connection_of app inp)) = None \<Longrightarrow>
         fault w (ExecCommand (''rm -f '' @ dq @ script_temp_path w @ dq) None) = Some m \<Longrightarrow>
         warnings (snd (executeScript_onEvent app inp w))
           = warnings w @ [''Failed to clean up temporary script file '' @ script_temp_path w
                           @ '': '' @ m]"
    and "fault w (Connect (connection_of app inp)) = Some m \<Longrightarrow>
         warnings (snd (executeScript_onEvent app inp w))
           = warnings w @ [''Failed to clean up temporary script file '' @ script_temp_path w
                           @ '': ''
                           @ unconnected w
                               (ExecCommand (''rm -f '' @ dq @ script_temp_path w @ dq) None)]"
proof -
  let ?cfg = "connection_of app inp"
  let ?w0 = "w\<lparr>session := Fresh\<rparr>"
  let ?t = "script_temp_path w"
  let ?body = "executeScript_try ?cfg inp (or_default (interpreter inp) ''sh'') ?t (clock w)"
  have eq: "snd (executeScript_onEvent app inp w) = snd (executeScript_finally ?t (snd (?body ?w0)))"
    by (simp add: executeScript_onEvent_valid [OF assms] snd_try_finally)
  have f: "fault (snd (?body ?w0)) = fault w" and wn: "warnings (snd (?body ?w0)) = warnings w"
    using keeps_executeScript_try [of ?cfg inp "or_default (interpreter inp) ''sh''" ?t "clock w"]
    by (simp_all add: keeps_def)
  show "warnings (snd (executeScript_onEvent app inp w))
           = warnings w @ [''Failed to clean up temporary script file '' @ ?t @ '': '' @ m]"
    if c: "fault w (Connect ?cfg) = None"
      and r: "fault w (ExecCommand (''rm -f '' @ dq @ ?t @ dq) None) = Some m"
  proof -
    from c have "fault ?w0 (Connect ?cfg) = None" by simp
    from executeScript_try_connected [OF this]
    have "session (snd (?body ?w0)) = Connected (connect_host ?cfg) (connect_port ?cfg)" .
    from executeScript_finally_warns(1) [OF this, of ?t m] r f wn eq show ?thesis by simp
  qed
  show "warnings (snd (executeScript_onEvent app inp w))
           = warnings w @ [''Failed to clean up temporary script file '' @ ?t @ '': ''
                           @ unconnected w (ExecCommand (''rm -f '' @ dq @ ?t @ dq) None)]"
    if c: "fault w (Connect ?cfg) = Some m"
  proof -
    from c have "fault ?w0 (Connect ?cfg) = Some m" by simp
    from executeScript_try_refused [OF this]
    have "session (snd (?body ?w0)) = Fresh"
      and "unconnected (snd (?body ?w0)) = unconnected w" by simp_all
    with executeScript_finally_warns(2) [of "snd (?body ?w0)" ?t] wn eq show ?thesis by simp
  qed
qed


lemmas codec_defs = byte_of_def unit_of_def b64_char_def ascii_def utf8_encode_def
  utf8_bytes_def is_high_surrogate_def is_low_surrogate_def Buffer_toString_utf8_def
  utf8_idle_def utf8_lead_def utf16_units_def

lemmas run_defs = bindE_def try_catch_def try_finally_def prim_defs truthy_def js_or_def
  or_default_def show_int_def show_nat.simps digit_char_def substr_def substring_def
  path_join_def dq_def sq_def nl_def Let_def

lemmas example_defs = calm_world_def example_app_def example_command_def example_script_def
  example_upload_def example_download_def example_metadata_def example_builtins_def

lemma utf8_hi: "utf8_encode (ascii ''hi'') = [0x68, 0x69]"
  by (simp add: codec_defs)

text \<open>
  The claim as stated fails in Upload File when \<open>unlink\<close> fails: the upload succeeds,
  the staging file is still there afterwards, and nothing has been recorded.
\<close>

theorem cleanup_failure_not_recorded:
  "fst (uploadFile_onEvent example_app example_upload unlink_fails_world) = Inr ()
   \<and> local_files (snd (uploadFile_onEvent example_app example_upload unlink_fails_world))
        ''/tmp/ssh-upload-0-4fzyo82mv'' = Some [0x68, 0x69]
   \<and> warnings (snd (uploadFile_onEvent example_app example_upload unlink_fails_world)) = []"
  by (simp add: uploadFile_onEvent_def uploadFile_try_def uploadFile_transfer_def
      transfer_finally_def unlink_fails_world_def run_defs example_defs utf8_hi)

text \<open>
  Claim C5, as amended. With a usable configuration every operation ends with its
  session disposed, and its completion is the completion of its \<open>try\<close> block: nothing
  that happens during cleanup reaches the caller. Upload File and Download File, once
  connected, end by calling \<open>unlink\<close> on their staging file, which is gone afterwards
  unless \<open>unlink\<close> itself fails; when the connection is refused they have staged
  nothing. A failure of \<open>unlink\<close> leaves no trace: these two blocks never write a
  warning. Execute Script records a failed removal of the remote script as a warning,
  whether the command failed or there was no connection to send it over; the warning
  then carries the message with which the client rejected the call.
\<close>

theorem cleanup_on_every_path:
  "(\<not> config_missing app (username ec) \<longrightarrow>
      session (snd (executeCommand_onEvent app ec w)) = Disposed
      \<and> fst (executeCommand_onEvent app ec w)
          = fst (executeCommand_try (connection_of app ec) ec (clock w) (w\<lparr>session := Fresh\<rparr>)))
   \<and> (\<not> config_missing app (username es) \<longrightarrow>
      session (snd (executeScript_onEvent app es w)) = Disposed
      \<and> fst (executeScript_onEvent app es w)
          = fst (executeScript_try (connection_of app es) es (or_default (interpreter es) ''sh'')
                   (script_temp_path w) (clock w) (w\<lparr>session := Fresh\<rparr>))
      \<and> (fault w (Connect (connection_of app es)) = None \<longrightarrow>
           fault w (rm_command w) = Some m \<longrightarrow>
           warnings (snd (executeScript_onEvent app es w)) = warnings w @ [cleanup_warning w m]))
   \<and> (\<not> config_missing app (username es) \<longrightarrow>
      fault v (Connect (connection_of app es)) = Some n \<longrightarrow>
      warnings (snd (executeScript_onEvent app es v))
        = warnings v @ [cleanup_warning v (unconnected v (rm_command v))])
   \<and> (\<not> config_missing app (username up) \<longrightarrow>
      session (snd (uploadFile_onEvent app up w)) = Disposed
      \<and> fst (uploadFile_onEvent app up w)
          = fst (fst (uploadFile_try (connection_of app up) up (w\<lparr>session := Fresh\<rparr>)))
      \<and> warnings (snd (uploadFile_onEvent app up w)) = warnings w
      \<and> (fault w (Connect (connection_of app up)) = None \<longrightarrow>
           last (trace (snd (uploadFile_onEvent app up w)))
             = Unlink (upload_temp_path w (connection_of app up))
           \<and> (fault w (Unlink (upload_temp_path w (connection_of app up))) = None \<longrightarrow>
                local_files (snd (uploadFile_onEvent app up w))
                  (upload_temp_path w (connection_of app up)) = None)))
   \<and> (\<not> config_missing app (username up) \<longrightarrow>
      fault v (Connect (connection_of app up)) = Some n \<longrightarrow>
      local_files (snd (uploadFile_onEvent app up v)) = local_files v)
   \<and> (\<not> config_missing app (username dl) \<longrightarrow>
      session (snd (downloadFile_onEvent L app dl w)) = Disposed
      \<and> fst (downloadFile_onEvent L app dl w)
          = fst (fst (downloadFile_try L (connection_of app dl) dl (w\<lparr>session := Fresh\<rparr>)))
      \<and> warnings (snd (downloadFile_onEvent L app dl w)) = warnings w
      \<and> (fault w (Connect (connection_of app dl)) = None \<longrightarrow>
           last (trace (snd (downloadFile_onEvent L app dl w)))
             = Unlink (download_temp_path w (connection_of app dl))
           \<and> (fault w (Unlink (download_temp_path w (connection_of app dl))) = None \<longrightarrow>
                local_files (snd (downloadFile_onEvent L app dl w))
                  (download_temp_path w (connection_of app dl)) = None)))
   \<and> (\<not> config_missing app (username dl) \<longrightarrow>
      fault v (Connect (connection_of app dl)) = Some n \<longrightarrow>
      local_files (snd (downloadFile_onEvent L app dl v)) = local_files v)
   \<and> (\<not> config_missing app (username hm) \<longrightarrow>
      session (snd (hostMetadata_onSync L app hm w)) = Disposed
      \<and> fst (hostMetadata_onSync L app hm w)
          = fst (try_catch (hostMetadata_try L (connection_of app hm))
                   (\<lambda>error. ret (failed (''Failed to connect to host: '' @ message error)))
                   (w\<lparr>session := Fresh\<rparr>)))"
proof -
  have ec: "session (snd (executeCommand_onEvent app ec w)) = Disposed
      \<and> fst (executeCommand_onEvent app ec w)
          = fst (executeCommand_try (connection_of app ec) ec (clock w) (w\<lparr>session := Fresh\<rparr>))"
    if "\<not> config_missing app (username ec)"
    using sessions_released [OF that] command_completion [OF that] by simp
  have es: "session (snd (executeScript_onEvent app es w)) = Disposed
      \<and> fst (executeScript_onEvent app es w)
          = fst (executeScript_try (connection_of app es) es (or_default (interpreter es) ''sh'')
                   (script_temp_path w) (clock w) (w\<lparr>session := Fresh\<rparr>))
      \<and> (fault w (Connect (connection_of app es)) = None \<longrightarrow>
           fault w (rm_command w) = Some m \<longrightarrow>
           warnings (snd (executeScript_onEvent app es w)) = warnings w @ [cleanup_warning w m])"
    if "\<not> config_missing app (username es)"
    using script_session_released [OF that] script_completion [OF that]
      script_cleanup_recorded(1) [OF that, of w m]
    by (simp add: rm_command_def cleanup_warning_def)
  have es': "warnings (snd (executeScript_onEvent app es v))
        = warnings v @ [cleanup_warning v (unconnected v (rm_command v))]"
    if "\<not> config_missing app (username es)" "fault v (Connect (connection_of app es)) = Some n"
    using script_cleanup_recorded(2) [OF that] by (simp add: cleanup_warning_def rm_command_def)
  have up: "session (snd (uploadFile_onEvent app up w)) = Disposed
      \<and> fst (uploadFile_onEvent app up w)
          = fst (fst (uploadFile_try (connection_of app up) up (w\<lparr>session := Fresh\<rparr>)))
      \<and> warnings (snd (uploadFile_onEvent app up w)) = warnings w
      \<and> (fault w (Connect (connection_of app up)) = None \<longrightarrow>
           last (trace (snd (uploadFile_onEvent app up w)))
             = Unlink (upload_temp_path w (connection_of app up))
           \<and> (fault w (Unlink (upload_temp_path w (connection_of app up))) = None \<longrightarrow>
                local_files (snd (uploadFile_onEvent app up w))
                  (upload_temp_path w (connection_of app up)) = None))"
    if "\<not> config_missing app (username up)"
    using upload_session_released [OF that] upload_completion [OF that] upload_warnings
      upload_staging_removed [OF that]
    by simp
  have up': "local_files (snd (uploadFile_onEvent app up v)) = local_files v"
    if "\<not> config_missing app (username up)" "fault v (Connect (connection_of app up)) = Some n"
    using upload_nothing_staged [OF that] .
  have dl: "session (snd (downloadFile_onEvent L app dl w)) = Disposed
      \<and> fst (downloadFile_onEvent L app dl w)
          = fst (fst (downloadFile_try L (connection_of app dl) dl (w\<lparr>session := Fresh\<rparr>)))
      \<and> warnings (snd (downloadFile_onEvent L app dl w)) = warnings w
      \<and> (fault w (Connect (connection_of app dl)) = None \<longrightarrow>
           last (trace (snd (downloadFile_onEvent L app dl w)))
             = Unlink (download_temp_path w (connection_of app dl))
           \<and> (fault w (Unlink (download_temp_path w (connection_of app dl))) = None \<longrightarrow>
                local_files (snd (downloadFile_onEvent L app dl w))
                  (download_temp_path w (connection_of app dl)) = None))"
    if "\<not> config_missing app (username dl)"
    using download_session_released [OF that] download_completion [OF that] download_warnings
      download_staging_removed [OF that]
    by simp
  have dl': "local_files (snd (downloadFile_onEvent L app dl v)) = local_files v"
    if "\<not> config_missing app (username dl)" "fault v (Connect (connection_of app dl)) = Some n"
    using download_nothing_staged [OF that] .
  have hm: "session (snd (hostMetadata_onSync L app hm w)) = Disposed
      \<and> fst (hostMetadata_onSync L app hm w)
          = fst (try_catch (hostMetadata_try L (connection_of app hm))
                   (\<lambda>error. ret (failed (''Failed to connect to host: '' @ message error)))
                   (w\<lparr>session := Fresh\<rparr>))"
    if "\<not> config_missing app (username hm)"
    using metadata_session_released [OF that] metadata_completion [OF that] by simp
  from ec es es' up up' dl dl' hm show ?thesis by blast
qed


theorem cleanup_on_every_path_witness:
  "\<not> config_missing example_app (username example_command)
   \<and> \<not> config_missing example_app (username example_script)
   \<and> \<not> config_missing example_app (username example_upload)
   \<and> \<not> config_missing example_app (username example_download)
   \<and> \<not> config_missing example_app (username example_metadata)
   \<and> fault rm_fails_world (Connect (connection_of example_app example_script)) = None
   \<and> fault rm_fails_world (rm_command rm_fails_world) = Some ''Timed out''
   \<and> fault rm_fails_world (Connect (connection_of example_app example_upload)) = None
   \<and> fault rm_fails_world
        (Unlink (upload_temp_path rm_fails_world (connection_of example_app example_upload)))
       = None
   \<and> fault rm_fails_world (Connect (connection_of example_app example_download)) = None
   \<and> fault rm_fails_world
        (Unlink (download_temp_path rm_fails_world (connection_of example_app example_download)))
       = None
   \<and> fault refusing_world (Connect (connection_of example_app example_script))
       = Some ''connect ECONNREFUSED''
   \<and> fault refusing_world (Connect (connection_of example_app example_upload))
       = Some ''connect ECONNREFUSED''
   \<and> fault refusing_world (Connect (connection_of example_app example_download))
       = Some ''connect ECONNREFUSED''
   \<and> session (snd (executeCommand_onEvent example_app example_command rm_fails_world)) = Disposed
   \<and> session (snd (executeScript_onEvent example_app example_script rm_fails_world)) = Disposed
   \<and> warnings (snd (executeScript_onEvent example_app example_script rm_fails_world))
       = [cleanup_warning rm_fails_world ''Timed out'']
   \<and> warnings (snd (executeScript_onEvent example_app example_script refusing_world))
       = [cleanup_warning refusing_world ''Not connected'']
   \<and> session (snd (uploadFile_onEvent example_app example_upload rm_fails_world)) = Disposed
   \<and> warnings (snd (uploadFile_onEvent example_app example_upload rm_fails_world)) = []
   \<and> last (trace (snd (uploadFile_onEvent example_app example_upload rm_fails_world)))
       = Unlink (upload_temp_path rm_fails_world (connection_of example_app example_upload))
   \<and> local_files (snd (uploadFile_onEvent example_app example_upload rm_fails_world))
        (upload_temp_path rm_fails_world (connection_of example_app example_upload)) = None
   \<and> local_files (snd (uploadFile_onEvent example_app example_upload refusing_world)) = Map.empty
   \<and> session (snd (downloadFile_onEvent example_builtins example_app example_download
                       rm_fails_world)) = Disposed
   \<and> local_files (snd (downloadFile_onEvent example_builtins example_app example_download
                           rm_fails_world))
        (download_temp_path rm_fails_world (connection_of example_app example_download)) = None
   \<and> local_files (snd (downloadFile_onEvent example_builtins example_app example_download
                           refusing_world)) = Map.empty
   \<and> session (snd (hostMetadata_onSync example_builtins example_app example_metadata
                       rm_fails_world)) = Disposed"
  using cleanup_on_every_path [where app = example_app and ec = example_command
      and es = example_script and up = example_upload and dl = example_download
      and hm = example_metadata and L = example_builtins and w = rm_fails_world
      and v = refusing_world and m = "''Timed out''" and n = "''connect ECONNREFUSED''"]
  by (simp add: config_missing_def example_defs rm_fails_world_def refusing_world_def
      rm_command_def truthy_def dq_def)

section \<open>Exit codes are results\<close>

lemma executeCommand_try_run:
  "fst (executeCommand_try (connection_of app inp) inp (clock w) (w\<lparr>session := Fresh\<rparr>))
   = completion_of (first_fault w
       [Connect (connection_of app inp), ExecCommand (command inp) (workingDirectory inp),
        Emit (command_result w app inp)])"
  "first_fault w
       [Connect (connection_of app inp), ExecCommand (command inp) (workingDirectory inp),
        Emit (command_result w app inp)] = None \<Longrightarrow>
   emitted (snd (executeCommand_try (connection_of app inp) inp (clock w) (w\<lparr>session := Fresh\<rparr>)))
   = emitted w @ [command_result w app inp]"
  by (simp_all add: executeCommand_try_def bindE_def prim_defs command_result_def Let_def
      completion_of_def split: option.splits)

lemma executeScript_try_run:
  "fst (executeScript_try (connection_of app inp) inp (or_default (interpreter inp) ''sh'')
          (script_temp_path w) (clock w) (w\<lparr>session := Fresh\<rparr>))
   = completion_of (first_fault w
       [Connect (connection_of app inp), stage_command w inp, chmod_command w,
        run_command w inp, Emit (script_result w app inp)])"
  "first_fault w
       [Connect (connection_of app inp), stage_command w inp, chmod_command w,
        run_command w inp, Emit (script_result w app inp)] = None \<Longrightarrow>
   emitted (snd (executeScript_try (connection_of app inp) inp (or_default (interpreter inp) ''sh'')
          (script_temp_path w) (clock w) (w\<lparr>session := Fresh\<rparr>)))
   = emitted w @ [script_result w app inp]"
  by (simp_all add: executeScript_try_def bindE_def prim_defs script_result_def Let_def
      stage_command_def chmod_command_def run_command_def
      completion_of_def add.assoc split: option.splits)

lemma keeps_emitted_finally:
  "keeps emitted ssh_dispose" "keeps emitted (executeScript_finally t)"
  by (simp_all add: keeps_def executeScript_finally_def bindE_def try_catch_def prim_defs
      split: prod.splits sum.splits option.splits session_state.splits)

lemma command_emitted:
  assumes "\<not> config_missing app (username inp)"
  shows "emitted (snd (executeCommand_onEvent app inp w))
         = emitted (snd (executeCommand_try (connection_of app inp) inp (clock w)
                           (w\<lparr>session := Fresh\<rparr>)))"
  using keeps_emitted_finally(1)
  by (simp add: executeCommand_onEvent_valid [OF assms] snd_try_finally keeps_def)

lemma script_emitted:
  assumes "\<not> config_missing app (username inp)"
  shows "emitted (snd (executeScript_onEvent app inp w))
         = emitted (snd (executeScript_try (connection_of app inp) inp
                           (or_default (interpreter inp) ''sh'') (script_temp_path w) (clock w)
                           (w\<lparr>session := Fresh\<rparr>)))"
  using keeps_emitted_finally(2)
  by (simp add: executeScript_onEvent_valid [OF assms] snd_try_finally keeps_def)

text \<open>
  Claim C4. With a usable configuration, Execute Command and Execute Script fail exactly
  when one of their calls throws: the connection, a command that cannot be sent or
  answered, or the platform refusing the event; the failure is the first of these. When
  none does, the operation completes normally and emits one event whose exit code is the
  one the remote command finished with, whatever it is: a non-zero exit code is a field
  of a successful result.
\<close>

theorem nonzero_exit_is_success:
  "(\<not> config_missing app (username ec) \<longrightarrow>
      fst (executeCommand_onEvent app ec w)
        = completion_of (first_fault w
            [Connect (connection_of app ec), ExecCommand (command ec) (workingDirectory ec),
             Emit (command_result w app ec)])
      \<and> (first_fault w
            [Connect (connection_of app ec), ExecCommand (command ec) (workingDirectory ec),
             Emit (command_result w app ec)] = None \<longrightarrow>
          fst (executeCommand_onEvent app ec w) = Inr ()
          \<and> emitted (snd (executeCommand_onEvent app ec w)) = emitted w @ [command_result w app ec]
          \<and> out_exitCode (command_result w app ec)
              = code (exec_reply w (command ec) (workingDirectory ec))))
   \<and> (\<not> config_missing app (username es) \<longrightarrow>
      fst (executeScript_onEvent app es w)
        = completion_of (first_fault w
            [Connect (connection_of app es), stage_command w es, chmod_command w,
             run_command w es, Emit (script_result w app es)])
      \<and> (first_fault w
            [Connect (connection_of app es), stage_command w es, chmod_command w,
             run_command w es, Emit (script_result w app es)] = None \<longrightarrow>
          fst (executeScript_onEvent app es w) = Inr ()
          \<and> emitted (snd (executeScript_onEvent app es w)) = emitted w @ [script_result w app es]
          \<and> out_exitCode (script_result w app es)
              = code (exec_reply w
                        (or_default (interpreter es) ''sh'' @ '' '' @ dq @ script_temp_path w @ dq)
                        (scriptWorkingDirectory es))))"
proof -
  have ec: "fst (executeCommand_onEvent app ec w)
        = completion_of (first_fault w
            [Connect (connection_of app ec), ExecCommand (command ec) (workingDirectory ec),
             Emit (command_result w app ec)])
      \<and> (first_fault w
            [Connect (connection_of app ec), ExecCommand (command ec) (workingDirectory ec),
             Emit (command_result w app ec)] = None \<longrightarrow>
          fst (executeCommand_onEvent app ec w) = Inr ()
          \<and> emitted (snd (executeCommand_onEvent app ec w)) = emitted w @ [command_result w app ec]
          \<and> out_exitCode (command_result w app ec)
              = code (exec_reply w (command ec) (workingDirectory ec)))"
    if v: "\<not> config_missing app (username ec)"
    using command_completion [OF v, of w] command_emitted [OF v, of w]
      executeCommand_try_run [where app = app and inp = ec and w = w]
    by (simp add: completion_of_def command_result_def Let_def)
  have es: "fst (executeScript_onEvent app es w)
        = completion_of (first_fault w
            [Connect (connection_of app es), stage_command w es, chmod_command w,
             run_command w es, Emit (script_result w app es)])
      \<and> (first_fault w
            [Connect (connection_of app es), stage_command w es, chmod_command w,
             run_command w es, Emit (script_result w app es)] = None \<longrightarrow>
          fst (executeScript_onEvent app es w) = Inr ()
          \<and> emitted (snd (executeScript_onEvent app es w)) = emitted w @ [script_result w app es]
          \<and> out_exitCode (script_result w app es)
              = code (exec_reply w
                        (or_default (interpreter es) ''sh'' @ '' '' @ dq @ script_temp_path w @ dq)
                        (scriptWorkingDirectory es)))"
    if v: "\<not> config_missing app (username es)"
    using script_completion [OF v, of w] script_emitted [OF v, of w]
      executeScript_try_run [where app = app and inp = es and w = w]
    by (simp add: completion_of_def script_result_def Let_def)
  from ec es show ?thesis by blast
qed

theorem nonzero_exit_is_success_witness:
  "\<not> config_missing example_app (username example_command)
   \<and> \<not> config_missing example_app (username example_script)
   \<and> first_fault exit7_world
        [Connect (connection_of example_app example_command),
         ExecCommand (command example_command) (workingDirectory example_command),
         Emit (command_result exit7_world example_app example_command)] = None
   \<and> first_fault exit7_world
        [Connect (connection_of example_app example_script),
         stage_command exit7_world example_script, chmod_command exit7_world,
         run_command exit7_world example_script,
         Emit (script_result exit7_world example_app example_script)] = None
   \<and> fst (executeCommand_onEvent example_app example_command exit7_world) = Inr ()
   \<and> emitted (snd (executeCommand_onEvent example_app example_command exit7_world))
       = [CommandOutput [] [] (Some 7) 0]
   \<and> fst (executeScript_onEvent example_app example_script exit7_world) = Inr ()
   \<and> emitted (snd (executeScript_onEvent example_app example_script exit7_world))
       = [CommandOutput [] [] (Some 7) 0]"
  using nonzero_exit_is_success [where app = example_app and ec = example_command
      and w = exit7_world and es = example_script]
  by (simp add: config_missing_def example_defs exit7_world_def truthy_def
      command_result_def script_result_def or_default_def Let_def completion_of_def
      stage_command_def chmod_command_def run_command_def connection_of_def)

section \<open>What the duration of a script measures\<close>

text \<open>
  The claim that the reported duration covers the interpreter invocation alone fails where
  connecting takes time: the invocation takes 40 ms and the reported duration is 290 ms.
\<close>

theorem script_duration_includes_connect:
  "latency slow_connect_world (run_command slow_connect_world example_script) = 40
   \<and> emitted (snd (executeScript_onEvent example_app example_script slow_connect_world))
       = [CommandOutput [] [] (Some 0) 290]"
  by (simp add: executeScript_onEvent_def executeScript_try_def executeScript_finally_def
      slow_connect_world_def run_command_def script_temp_path_def run_defs example_defs)

text \<open>
  Claim C7, as amended. \<open>startTime\<close> is read before the connection is opened, so when
  Execute Script succeeds the duration it reports is the time taken by connecting,
  staging the script, marking it executable and running it, together.
\<close>

theorem script_duration_from_connect:
  "\<not> config_missing app (username es) \<Longrightarrow>
   first_fault w
     [Connect (connection_of app es), stage_command w es, chmod_command w,
      run_command w es, Emit (script_result w app es)] = None \<Longrightarrow>
   emitted (snd (executeScript_onEvent app es w)) = emitted w @ [script_result w app es]
   \<and> out_duration (script_result w app es)
       = int (latency w (Connect (connection_of app es))) + int (latency w (stage_command w es))
         + int (latency w (chmod_command w)) + int (latency w (run_command w es))"
  using script_emitted [of app es w] executeScript_try_run(2) [where app = app and inp = es and w = w]
  by (simp add: script_result_def Let_def)

theorem script_duration_from_connect_witness:
  "\<not> config_missing example_app (username example_script)
   \<and> first_fault slow_connect_world
        [Connect (connection_of example_app example_script),
         stage_command slow_connect_world example_script, chmod_command slow_connect_world,
         run_command slow_connect_world example_script,
         Emit (script_result slow_connect_world example_app example_script)] = None
   \<and> emitted (snd (executeScript_onEvent example_app example_script slow_connect_world))
       = [script_result slow_connect_world example_app example_script]
   \<and> out_duration (script_result slow_connect_world example_app example_script) = 290"
  using script_duration_from_connect [of example_app example_script slow_connect_world]
  by (simp add: config_missing_def example_defs slow_connect_world_def truthy_def
      or_default_def stage_command_def chmod_command_def run_command_def connection_of_def)

section \<open>Calls that succeed\<close>

lemma tick_fields [simp]:
  "fault (tick c w) = fault w" "latency (tick c w) = latency w"
  "exec_reply (tick c w) = exec_reply w" "os_tmpdir (tick c w) = os_tmpdir w"
  "exec_effect (tick c w) = exec_effect w" "unconnected (tick c w) = unconnected w"
  "missing (tick c w) = missing w"
  "math_random (tick c w) = math_random w" "session (tick c w) = session w"
  "remote_files (tick c w) = remote_files w" "local_files (tick c w) = local_files w"
  "emitted (tick c w) = emitted w" "warnings (tick c w) = warnings w"
  "trace (tick c w) = trace w @ [c]" "clock (tick c w) = clock w + int (latency w c)"
  by (simp_all add: tick_def)

lemma first_fault_None: "first_fault w cs = None \<longleftrightarrow> (\<forall>c\<in>set cs. fault w c = None)"
  by (induction cs) (auto split: option.splits)

lemma writeFile_ok:
  "fault w (WriteFile p (file_bytes d)) = None \<Longrightarrow>
   fs_writeFile p d w =
     (Inr (), (tick (WriteFile p (file_bytes d)) w)\<lparr>local_files := (local_files w)(p \<mapsto> file_bytes d)\<rparr>)"
  by (simp add: fs_writeFile_def perform_def Let_def)

lemma putFile_ok:
  "session w = Connected h q \<Longrightarrow> fault w (PutFile l r) = None \<Longrightarrow> local_files w l = Some b \<Longrightarrow>
   ssh_putFile l r w =
     (Inr (), (tick (PutFile l r) w)\<lparr>remote_files :=
                (remote_files w)((h, q) := (remote_files w (h, q))(r \<mapsto> b))\<rparr>)"
  by (simp add: ssh_putFile_def perform_def)

lemma getFile_ok:
  "session w = Connected h q \<Longrightarrow> fault w (GetFile l r) = None \<Longrightarrow>
   remote_files w (h, q) r = Some b \<Longrightarrow>
   ssh_getFile l r w =
     (Inr (), (tick (GetFile l r) w)\<lparr>local_files := (local_files w)(l \<mapsto> b)\<rparr>)"
  by (simp add: ssh_getFile_def perform_def)

lemma execCommand_ok:
  "session w = Connected h q \<Longrightarrow> fault w (ExecCommand cmd cwd) = None \<Longrightarrow>
   ssh_execCommand cmd cwd w =
     (Inr (exec_reply w cmd cwd),
      (tick (ExecCommand cmd cwd) w)\<lparr>remote_files :=
         (remote_files w)((h, q) := exec_effect w cmd cwd (remote_files w (h, q)))\<rparr>)"
  by (simp add: ssh_execCommand_def perform_def)

lemma readFile_ok:
  "fault w (ReadFile p) = None \<Longrightarrow> local_files w p = Some b \<Longrightarrow>
   fs_readFile p w = (Inr b, tick (ReadFile p) w)"
  by (simp add: fs_readFile_def perform_def)

lemma stat_ok:
  "fault w (Stat p) = None \<Longrightarrow> local_files w p = Some b \<Longrightarrow>
   fs_stat p w = (Inr (length b), tick (Stat p) w)"
  by (simp add: fs_stat_def perform_def)

lemma emit_ok:
  "fault w (Emit ev) = None \<Longrightarrow>
   events_emit ev w = (Inr (), (tick (Emit ev) w)\<lparr>emitted := emitted w @ [ev]\<rparr>)"
  by (simp add: events_emit_def perform_def)

lemmas ok_steps = writeFile_ok putFile_ok getFile_ok execCommand_ok readFile_ok stat_ok emit_ok

section \<open>Uploading\<close>

lemma file_bytes_fileContent:
  "file_bytes (if encoding inp = Some ''base64'' then Buffer (Buffer_from_base64 (content inp))
               else Text (content inp)) = upload_bytes inp"
  by (simp add: file_bytes_def upload_bytes_def)

lemma transfer_calls_ok:
  assumes "first_fault w (transfer_calls p inp) = None"
  shows "fault w (WriteFile p (upload_bytes inp)) = None"
    and "fault w (PutFile p (destinationPath inp)) = None"
    and "fault w (Stat p) = None"
    and "fault w (Emit (upload_result inp)) = None"
    and "permissions inp = Some perm \<Longrightarrow> perm \<noteq> [] \<Longrightarrow>
         fault w (ExecCommand (''chmod '' @ perm @ '' '' @ dq @ destinationPath inp @ dq) None) = None"
  using assms unfolding first_fault_None
  by (simp_all add: transfer_calls_def truthy_def permission_command_def or_default_def)

lemma uploadFile_transfer_done:
  assumes s: "session w = Connected (host inp) (port inp)"
    and f: "first_fault w (transfer_calls p inp) = None"
  shows "fst (uploadFile_transfer p inp w) = Inr ()"
    and "emitted (snd (uploadFile_transfer p inp w)) = emitted w @ [upload_result inp]"
    and "remote_files (snd (uploadFile_transfer p inp w))
         = (remote_files w)((host inp, port inp) := uploaded_files w inp)"
    and "trace (snd (uploadFile_transfer p inp w)) = trace w @ transfer_calls p inp"
  using s transfer_calls_ok [OF f]
  by (simp_all add: uploadFile_transfer_def bindE_def ok_steps file_bytes_fileContent ret_def
      upload_result_def transfer_calls_def truthy_def permission_command_def or_default_def
      uploaded_files_def
      split: option.split)

lemma keeps_transfer_finally:
  "keeps emitted (transfer_finally t)" "keeps remote_files (transfer_finally t)"
  "keeps fault (transfer_finally t)"
  by (simp_all add: keeps_def transfer_finally_def bindE_def try_catch_def prim_defs
      split: prod.splits sum.splits option.splits)

lemma uploadFile_try_done:
  assumes f: "first_fault w (upload_calls w app inp) = None"
  defines "w1 \<equiv> snd (uploadFile_try (connection_of app inp) inp (w\<lparr>session := Fresh\<rparr>))"
  shows "fst (uploadFile_try (connection_of app inp) inp (w\<lparr>session := Fresh\<rparr>))
         = (Inr (), Some (upload_temp_path w (connection_of app inp)))"
    and "emitted w1 = emitted w @ [upload_result inp]"
    and "remote_files w1 = (remote_files w)((host inp, port inp) := uploaded_files w inp)"
    and "trace w1 = trace w @ upload_calls w app inp"
proof -
  let ?cfg = "connection_of app inp"
  let ?w0 = "w\<lparr>session := Fresh\<rparr>"
  let ?p = "upload_temp_path w ?cfg"
  let ?w1 = "(tick (Connect ?cfg) ?w0)\<lparr>session := Connected (host inp) (port inp)\<rparr>"
  from f have c: "fault ?w0 (Connect ?cfg) = None"
    and t: "first_fault ?w1 (transfer_calls ?p inp) = None"
    unfolding first_fault_None upload_calls_def by simp_all
  have conn: "ssh_connect ?cfg ?w0 = (Inr (), ?w1)"
    using c by (simp add: ssh_connect_def perform_def connection_of_def)
  have s: "session ?w1 = Connected (host inp) (port inp)" by simp
  have eq: "uploadFile_try ?cfg inp ?w0
            = ((fst (uploadFile_transfer ?p inp ?w1), Some ?p), snd (uploadFile_transfer ?p inp ?w1))"
    by (simp add: uploadFile_try_def conn Let_def upload_temp_path_def split: prod.splits)
  have u: "uploaded_files ?w1 inp = uploaded_files w inp"
    by (simp add: uploaded_files_def Let_def)
  from uploadFile_transfer_done [OF s t] eq u
  show "fst (uploadFile_try ?cfg inp ?w0) = (Inr (), Some ?p)"
    and "emitted w1 = emitted w @ [upload_result inp]"
    and "remote_files w1 = (remote_files w)((host inp, port inp) := uploaded_files w inp)"
    and "trace w1 = trace w @ upload_calls w app inp"
    by (simp_all add: w1_def upload_calls_def)
qed

lemma upload_done:
  assumes v: "\<not> config_missing app (username inp)"
    and f: "first_fault w (upload_calls w app inp) = None"
  shows "fst (uploadFile_onEvent app inp w) = Inr ()"
    and "emitted (snd (uploadFile_onEvent app inp w)) = emitted w @ [upload_result inp]"
    and "remote_files (snd (uploadFile_onEvent app inp w))
         = (remote_files w)((host inp, port inp) := uploaded_files w inp)"
    and "take (length (upload_calls w app inp)) (calls_made w (snd (uploadFile_onEvent app inp w)))
         = upload_calls w app inp"
proof -
  let ?cfg = "connection_of app inp"
  let ?T = "uploadFile_try ?cfg inp (w\<lparr>session := Fresh\<rparr>)"
  let ?p = "upload_temp_path w ?cfg"
  have T: "?T = ((Inr (), Some ?p), snd ?T)"
    using uploadFile_try_done(1) [OF f] by (metis prod.collapse)
  have fin: "snd (uploadFile_onEvent app inp w) = snd (transfer_finally (Some ?p) (snd ?T))"
    by (subst uploadFile_onEvent_valid [OF v], subst T) (simp add: snd_finally_case)
  show "fst (uploadFile_onEvent app inp w) = Inr ()"
    using upload_completion [OF v, of w] T by (metis fst_conv)
  show "emitted (snd (uploadFile_onEvent app inp w)) = emitted w @ [upload_result inp]"
    using keeps_transfer_finally(1) uploadFile_try_done(2) [OF f] fin by (simp add: keeps_def)
  show "remote_files (snd (uploadFile_onEvent app inp w))
         = (remote_files w)((host inp, port inp) := uploaded_files w inp)"
    using keeps_transfer_finally(2) uploadFile_try_done(3) [OF f] fin by (simp add: keeps_def)
  from grows_transfer_finally [of "Some ?p"] obtain us
    where "trace (snd (transfer_finally (Some ?p) (snd ?T))) = trace (snd ?T) @ us"
    unfolding grows_def by blast
  with uploadFile_try_done(4) [OF f] fin
  show "take (length (upload_calls w app inp)) (calls_made w (snd (uploadFile_onEvent app inp w)))
         = upload_calls w app inp"
    by (simp add: calls_made_def)
qed

lemma first_fault_reply [simp]: "first_fault (w\<lparr>exec_reply := r\<rparr>) cs = first_fault w cs"
  by (induction cs) (simp_all split: option.split)

lemma upload_calls_reply [simp]: "upload_calls (w\<lparr>exec_reply := r\<rparr>) app inp = upload_calls w app inp"
  by (simp add: upload_calls_def upload_temp_path_def)

text \<open>
  Claim C9. When Upload File is given permissions and none of its calls throws, it sends
  the \<open>chmod\<close> command and then completes normally with the event of the upload,
  whatever that command answers: its exit code and its output are never looked at.
\<close>

theorem permission_outcome_ignored:
  assumes "\<not> config_missing app (username up)"
    and "truthy (permissions up)"
    and "first_fault w (upload_calls w app up) = None"
  shows "fst (uploadFile_onEvent app up (w\<lparr>exec_reply := reply\<rparr>)) = Inr ()
   \<and> emitted (snd (uploadFile_onEvent app up (w\<lparr>exec_reply := reply\<rparr>)))
       = emitted w @ [upload_result up]
   \<and> ExecCommand (permission_command up) None
       \<in> set (calls_made (w\<lparr>exec_reply := reply\<rparr>)
                (snd (uploadFile_onEvent app up (w\<lparr>exec_reply := reply\<rparr>))))"
proof -
  let ?w = "w\<lparr>exec_reply := reply\<rparr>"
  from assms(3) have f: "first_fault ?w (upload_calls ?w app up) = None" by simp
  from assms(2) have "ExecCommand (permission_command up) None \<in> set (upload_calls w app up)"
    by (simp add: upload_calls_def transfer_calls_def)
  with upload_done(4) [OF assms(1) f]
  have "ExecCommand (permission_command up) None
        \<in> set (take (length (upload_calls w app up))
                 (calls_made ?w (snd (uploadFile_onEvent app up ?w))))"
    by simp
  then have "ExecCommand (permission_command up) None
        \<in> set (calls_made ?w (snd (uploadFile_onEvent app up ?w)))"
    by (rule in_set_takeD)
  with upload_done(1,2) [OF assms(1) f] show ?thesis by simp
qed

theorem permission_outcome_ignored_witness:
  "\<not> config_missing example_app (username example_upload)
   \<and> truthy (permissions example_upload)
   \<and> first_fault calm_world (upload_calls calm_world example_app example_upload) = None
   \<and> code (denied_reply (permission_command example_upload) None) = Some 1
   \<and> fst (uploadFile_onEvent example_app example_upload (calm_world\<lparr>exec_reply := denied_reply\<rparr>))
       = Inr ()
   \<and> emitted (snd (uploadFile_onEvent example_app example_upload
                       (calm_world\<lparr>exec_reply := denied_reply\<rparr>)))
       = [UploadOutput ''/srv/a.txt'' 2]
   \<and> emitted (snd (uploadFile_onEvent example_app
                       (example_upload\<lparr>content := [0x61, 0x47, 0x6B, 0x141],
                                        encoding := Some ''base64''\<rparr>)
                       (calm_world\<lparr>exec_reply := denied_reply\<rparr>)))
       = [UploadOutput ''/srv/a.txt'' 3]"
  using permission_outcome_ignored [of example_app example_upload calm_world denied_reply]
    permission_outcome_ignored [of example_app
      "example_upload\<lparr>content := [0x61, 0x47, 0x6B, 0x141], encoding := Some ''base64''\<rparr>"
      calm_world denied_reply]
  by (simp add: config_missing_def example_defs truthy_def first_fault_None denied_reply_def
      upload_result_def upload_bytes_def utf8_hi [unfolded example_defs]
      Buffer_from_base64_def b64_val_def low_byte_def List.map_filter_simps byte_of_def)

section \<open>Known hosts\<close>

text \<open>
  Claim C1 does not hold of the code: no block reads \<open>knownHosts\<close>, and no connection
  brings a host key verifier. The app pins \<open>SHA256:expected\<close> for the host, the server
  presents \<open>SHA256:other\<close>, a connection verifying the pinned key would be refused, and
  Execute Command connects, runs the command and emits its result. For every block the
  run is the same whatever \<open>knownHosts\<close> holds.
\<close>

theorem known_hosts_never_enforced:
  "knownHosts pinned_app = Some [''10.0.0.5'' \<mapsto> ''SHA256:expected'']
   \<and> fault (verifying_world ''SHA256:other'')
        (Connect ((connection_of pinned_app example_command)
           \<lparr>connect_hostVerifier := Some (\<lambda>key. key = ''SHA256:expected'')\<rparr>))
       = Some ''Host denied (verification failed)''
   \<and> fst (executeCommand_onEvent pinned_app example_command (verifying_world ''SHA256:other''))
       = Inr ()
   \<and> emitted (snd (executeCommand_onEvent pinned_app example_command
                       (verifying_world ''SHA256:other'')))
       = [CommandOutput [] [] (Some 0) 0]
   \<and> executeCommand_onEvent (app\<lparr>knownHosts := k\<rparr>) ec = executeCommand_onEvent app ec
   \<and> executeScript_onEvent (app\<lparr>knownHosts := k\<rparr>) es = executeScript_onEvent app es
   \<and> uploadFile_onEvent (app\<lparr>knownHosts := k\<rparr>) up = uploadFile_onEvent app up
   \<and> downloadFile_onEvent L (app\<lparr>knownHosts := k\<rparr>) dl = downloadFile_onEvent L app dl
   \<and> hostMetadata_onSync L (app\<lparr>knownHosts := k\<rparr>) hm = hostMetadata_onSync L app hm"
proof -
  have a: "knownHosts pinned_app = Some [''10.0.0.5'' \<mapsto> ''SHA256:expected'']"
    by (simp add: pinned_app_def)
  have b: "fault (verifying_world ''SHA256:other'')
        (Connect ((connection_of pinned_app example_command)
           \<lparr>connect_hostVerifier := Some (\<lambda>key. key = ''SHA256:expected'')\<rparr>))
       = Some ''Host denied (verification failed)''"
    by (simp add: verifying_world_def)
  have c: "fst (executeCommand_onEvent pinned_app example_command (verifying_world ''SHA256:other''))
       = Inr ()"
    "emitted (snd (executeCommand_onEvent pinned_app example_command
                       (verifying_world ''SHA256:other'')))
       = [CommandOutput [] [] (Some 0) 0]"
    by (simp_all add: executeCommand_onEvent_def executeCommand_try_def pinned_app_def
        verifying_world_def run_defs example_defs)
  have d: "executeCommand_onEvent (app\<lparr>knownHosts := k\<rparr>) ec = executeCommand_onEvent app ec"
    "executeScript_onEvent (app\<lparr>knownHosts := k\<rparr>) es = executeScript_onEvent app es"
    "uploadFile_onEvent (app\<lparr>knownHosts := k\<rparr>) up = uploadFile_onEvent app up"
    "downloadFile_onEvent L (app\<lparr>knownHosts := k\<rparr>) dl = downloadFile_onEvent L app dl"
    "hostMetadata_onSync L (app\<lparr>knownHosts := k\<rparr>) hm = hostMetadata_onSync L app hm"
    by (simp_all add: executeCommand_onEvent_def executeScript_onEvent_def
        uploadFile_onEvent_def downloadFile_onEvent_def hostMetadata_onSync_def fun_eq_iff
        Let_def)
  from a b c d show ?thesis by simp
qed

section \<open>Probes that throw\<close>

lemmas metadata_defs = hostMetadata_onSync_def hostMetadata_try_def loadAverage_probe_def
  memory_probe_def uptimeSeconds_parse_def failed_def zero_load_def

text \<open>
  Claim C6 does not hold of the code for the first five probes. The connection is
  established, the channel for \<open>hostname\<close> cannot be opened, and the whole collection
  fails, reported as a failure to connect. The load average probe, which has its own
  \<open>catch\<close>, does what the claim says in the same situation: the collection is ready,
  the load average is zero and a warning is written.
\<close>

theorem hostname_probe_failure_fails_collection:
  "fault hostname_fails_world (Connect (connection_of example_app example_metadata)) = None
   \<and> fst (hostMetadata_onSync example_builtins example_app example_metadata hostname_fails_world)
       = Inr (failed ''Failed to connect to host: (SSH) Channel open failure: open failed'')
   \<and> calls_made hostname_fails_world
        (snd (hostMetadata_onSync example_builtins example_app example_metadata
                hostname_fails_world))
       = [Connect (connection_of example_app example_metadata), ExecCommand ''hostname'' None,
          Dispose]
   \<and> fst (hostMetadata_onSync example_builtins example_app example_metadata loadavg_fails_world)
       = Inr \<lparr>newStatus = ''ready'', customStatusDescription = None,
               signalUpdates = Some
                 \<lparr>sig_hostname = [], sig_osType = [], sig_osRelease = [],
                  sig_architecture = [], sig_uptime = Num 0, sig_loadAverage = zero_load,
                  sig_memoryTotal = Num 0, sig_memoryFree = Num 0\<rparr>\<rparr>
   \<and> warnings (snd (hostMetadata_onSync example_builtins example_app example_metadata
                        loadavg_fails_world))
       = [''Failed to get load average: (SSH) Channel open failure: open failed'']"
  by (simp add: metadata_defs hostname_fails_world_def loadavg_fails_world_def run_defs
      example_defs calls_made_def connection_of_def effective_username_def loadavg_command_def)

section \<open>The encoding of a download\<close>

lemmas download_defs = downloadFile_onEvent_def downloadFile_try_def downloadFile_transfer_def
  transfer_finally_def at_index_def num_times_def

text \<open>
  Claim C8 does not hold of the code: the \<open>default\<close> declared for the encoding of
  Download File is \<open>text\<close>, and the handler takes every encoding but \<open>base64\<close> as text.
  A download of the two bytes of \<open>hi\<close> without an encoding returns \<open>hi\<close>, with the
  declared default filled in or not; in base64 the content would be \<open>aGk=\<close>.
\<close>

theorem download_default_is_text:
  "with_default downloadFile_encoding_default None = Some ''text''
   \<and> emitted (snd (downloadFile_onEvent example_builtins example_app
                       (example_download\<lparr>downloadEncoding := None\<rparr>) served_world))
       = [DownloadOutput (ascii ''hi'') ''/srv/a.txt'' 2 (Some ''644'')
            ''1970-01-01T00:00:00.000Z'']
   \<and> emitted (snd (downloadFile_onEvent example_builtins example_app
                       (example_download\<lparr>downloadEncoding :=
                          with_default downloadFile_encoding_default None\<rparr>) served_world))
       = [DownloadOutput (ascii ''hi'') ''/srv/a.txt'' 2 (Some ''644'')
            ''1970-01-01T00:00:00.000Z'']
   \<and> emitted (snd (downloadFile_onEvent example_builtins example_app
                       (example_download\<lparr>downloadEncoding := Some ''base64''\<rparr>) served_world))
       = [DownloadOutput (ascii ''aGk='') ''/srv/a.txt'' 2 (Some ''644'')
            ''1970-01-01T00:00:00.000Z'']
   \<and> ascii ''hi'' \<noteq> ascii ''aGk=''"
  by (simp add: download_defs served_world_def run_defs example_defs with_default_def
      downloadFile_encoding_default_def codec_defs)

section \<open>Base64 loses nothing\<close>


















text \<open>
  Only the low byte of a code unit counts: U+0141 is read as \<open>A\<close> and U+013D as the
  \<open>=\<close> at which decoding stops.
\<close>

lemma base64_reads_low_bytes:
  "Buffer_from_base64 [0x61, 0x47, 0x6B, 0x141] = [104, 105, 0]
   \<and> Buffer_from_base64 [0x61, 0x47, 0x13D, 0x6B] = [104]"
  by (simp add: Buffer_from_base64_def b64_val_def low_byte_def List.map_filter_simps byte_of_def)


section \<open>UTF-8 returns well-formed text\<close>












section \<open>Downloading what was uploaded\<close>




lemma keeps_exec_reply_prims [keeps_intros]:
  "keeps exec_reply date_now" "keeps exec_reply (console_warn s)"
  "keeps exec_reply (events_emit ev)" "keeps exec_reply new_NodeSSH"
  "keeps exec_reply (ssh_connect cfg)" "keeps exec_reply (ssh_execCommand cmd cwd)"
  "keeps exec_reply ssh_dispose" "keeps exec_reply (fs_writeFile p d)"
  "keeps exec_reply (fs_readFile p)" "keeps exec_reply (fs_stat p)"
  "keeps exec_reply (fs_unlink p)" "keeps exec_reply (ssh_putFile l r)"
  "keeps exec_reply (ssh_getFile l r)"
  by (simp_all add: keeps_def prim_defs Let_def
      split: option.splits session_state.splits)



text \<open>
  Upload File pastes \<open>permissions\<close> and the destination path into the command line of
  \<open>chmod\<close> as they are, so what that line does to the uploaded file is up to the remote
  shell: on a host where the line below empties the file, the download returns nothing of
  what was uploaded.
\<close>

lemma pasted_permissions_can_truncate:
  "permission_command (example_upload\<lparr>permissions := Some ''0644 /x; : >''\<rparr>)
     = ''chmod 0644 /x; : > '' @ dq @ ''/srv/a.txt'' @ dq
   \<and> emitted (snd (downloadFile_onEvent example_builtins example_app example_download
                      (snd (uploadFile_onEvent example_app
                              (example_upload\<lparr>permissions := Some ''0644 /x; : >''\<rparr>)
                              truncating_world))))
     = [UploadOutput ''/srv/a.txt'' 2,
        DownloadOutput [] ''/srv/a.txt'' 0 (Some ''644'') ''1970-01-01T00:00:00.000Z'']"
  by (simp add: uploadFile_onEvent_def uploadFile_try_def uploadFile_transfer_def
      permission_command_def download_defs truncating_world_def stat_world_def run_defs
      example_defs codec_defs)



end
